theory Spec2Isabelle
  imports Complex_Main "HOL-Library.Sublist"
begin

section \<open>JavaScript values\<close>

text \<open>
  The script is untyped JavaScript, so the model keeps the values the code can meet as a
  datatype of their own. Numbers are the finite numbers (as exact reals: the rounding of
  IEEE doubles is not modelled, every number the script computes with is an integer below
  \<open>2^53\<close>) together with \<open>NaN\<close> and the two infinities. Objects are plain data
  objects (an association list of properties, in insertion order), arrays are lists.
\<close>

datatype jsnum = NaN | PosInf | NegInf | Fin real

datatype jsval =
    JUndefined
  | JNull
  | JBool bool
  | JNum jsnum
  | JStr string
  | JArr "jsval list"
  | JObj "(string \<times> jsval) list"

text \<open>
  What the JavaScript engine supplies and the script does not define: the conversion of a
  string to a number (\<open>StringToNumber\<close>), the printing of a finite number
  (\<open>Number::toString\<close>) and the local time zone (\<open>LocalTZA(t, isUTC)\<close>, the offset
  in milliseconds of local time at the UTC instant \<open>t\<close>, or at the local time \<open>t\<close>
  when \<open>isUTC\<close> is false). They are parameters of the model.
\<close>

record js_runtime =
  str2num :: "string \<Rightarrow> jsnum"
  num2str :: "real \<Rightarrow> string"
  LocalTZA :: "int \<Rightarrow> bool \<Rightarrow> int"

text \<open>\<open>ToBoolean\<close>: the falsy values are undefined, null, false, 0, NaN and the empty string.\<close>

fun truthy :: "jsval \<Rightarrow> bool" where
  "truthy JUndefined = False"
| "truthy JNull = False"
| "truthy (JBool b) = b"
| "truthy (JNum NaN) = False"
| "truthy (JNum (Fin x)) = (x \<noteq> 0)"
| "truthy (JNum PosInf) = True"
| "truthy (JNum NegInf) = True"
| "truthy (JStr s) = (s \<noteq> [])"
| "truthy (JArr xs) = True"
| "truthy (JObj fs) = True"

fun num_to_string :: "js_runtime \<Rightarrow> jsnum \<Rightarrow> string" where
  "num_to_string rt NaN = ''NaN''"
| "num_to_string rt PosInf = ''Infinity''"
| "num_to_string rt NegInf = ''-Infinity''"
| "num_to_string rt (Fin x) = num2str rt x"

fun join :: "string \<Rightarrow> string list \<Rightarrow> string" where
  "join sep [] = []"
| "join sep [s] = s"
| "join sep (s # t # ts) = s @ sep @ join sep (t # ts)"

text \<open>
  \<open>ToString\<close>, as a template literal \<open>`${v}`\<close> applies it. An array prints its
  elements joined by commas, with undefined and null elements empty; a plain object prints
  as \<open>[object Object]\<close>.
\<close>

fun to_string :: "js_runtime \<Rightarrow> jsval \<Rightarrow> string" where
  "to_string rt JUndefined = ''undefined''"
| "to_string rt JNull = ''null''"
| "to_string rt (JBool b) = (if b then ''true'' else ''false'')"
| "to_string rt (JNum n) = num_to_string rt n"
| "to_string rt (JStr s) = s"
| "to_string rt (JArr xs) =
     join '','' (map (\<lambda>x. if x = JUndefined \<or> x = JNull then [] else to_string rt x) xs)"
| "to_string rt (JObj fs) = ''[object Object]''"

text \<open>\<open>ToNumber\<close>; arrays and objects go through their string.\<close>

fun to_number :: "js_runtime \<Rightarrow> jsval \<Rightarrow> jsnum" where
  "to_number rt JUndefined = NaN"
| "to_number rt JNull = Fin 0"
| "to_number rt (JBool b) = (if b then Fin 1 else Fin 0)"
| "to_number rt (JNum n) = n"
| "to_number rt (JStr s) = str2num rt s"
| "to_number rt (JArr xs) = str2num rt (to_string rt (JArr xs))"
| "to_number rt (JObj fs) = str2num rt (to_string rt (JObj fs))"

text \<open>\<open>a > b\<close> on numbers: false as soon as one side is NaN.\<close>

fun num_gt :: "jsnum \<Rightarrow> jsnum \<Rightarrow> bool" where
  "num_gt NaN b = False"
| "num_gt PosInf b = (case b of Fin y \<Rightarrow> True | NegInf \<Rightarrow> True | _ \<Rightarrow> False)"
| "num_gt NegInf b = False"
| "num_gt (Fin x) b = (case b of Fin y \<Rightarrow> y < x | NegInf \<Rightarrow> True | _ \<Rightarrow> False)"

text \<open>
  The script writes \<open>a > b\<close> only where one operand is a number, so the comparison
  is numeric: the other operand is converted with \<open>ToNumber\<close>.
\<close>

definition js_gt :: "js_runtime \<Rightarrow> jsval \<Rightarrow> jsval \<Rightarrow> bool" where
  "js_gt rt a b = num_gt (to_number rt a) (to_number rt b)"

text \<open>
  The property \<open>v.length\<close> of a value that is not undefined or null: the number of
  characters of a string, the number of elements of an array, the property of that name
  of an object, and undefined for a number or a boolean.
\<close>

fun js_length :: "jsval \<Rightarrow> jsval" where
  "js_length (JStr s) = JNum (Fin (real (length s)))"
| "js_length (JArr xs) = JNum (Fin (real (length xs)))"
| "js_length (JObj fs) = (case map_of fs ''length'' of None \<Rightarrow> JUndefined | Some v \<Rightarrow> v)"
| "js_length v = JUndefined"

text \<open>
  A thrown value: an error object (its name and its message) or, where the script rejects
  a promise with a template string, a bare string. \<open>`${e}`\<close> prints an error object as
  \<open>name: message\<close>.
\<close>

datatype thrown = ErrorObj string string | Rejected string

fun thrown_to_string :: "thrown \<Rightarrow> string" where
  "thrown_to_string (ErrorObj name msg) =
     (if msg = [] then name else name @ '': '' @ msg)"
| "thrown_to_string (Rejected s) = s"

definition Error :: "string \<Rightarrow> thrown" where
  "Error msg = ErrorObj ''Error'' msg"

text \<open>
  Reading a property of a value. The script reads \<open>access_token\<close>, \<open>expires_in\<close>
  and \<open>token_type\<close> of the token response, and only after the guard \<open>!data\<close> has
  excluded undefined and null (where the read would throw): of an object the property is
  looked up, of any other value it is undefined.
\<close>

fun js_get :: "jsval \<Rightarrow> string \<Rightarrow> jsval" where
  "js_get (JObj fs) name = (case map_of fs name of None \<Rightarrow> JUndefined | Some v \<Rightarrow> v)"
| "js_get v name = JUndefined"

text \<open>
  \<open>a + b\<close>: string concatenation as soon as one operand is (or converts to) a string,
  numeric addition otherwise.
\<close>

fun num_add :: "jsnum \<Rightarrow> jsnum \<Rightarrow> jsnum" where
  "num_add NaN b = NaN"
| "num_add PosInf b = (if b = NaN \<or> b = NegInf then NaN else PosInf)"
| "num_add NegInf b = (if b = NaN \<or> b = PosInf then NaN else NegInf)"
| "num_add (Fin x) b = (case b of Fin y \<Rightarrow> Fin (x + y) | _ \<Rightarrow> b)"

fun stringy :: "jsval \<Rightarrow> bool" where
  "stringy (JStr s) = True"
| "stringy (JArr xs) = True"
| "stringy (JObj fs) = True"
| "stringy v = False"

definition js_add :: "js_runtime \<Rightarrow> jsval \<Rightarrow> jsval \<Rightarrow> jsval" where
  "js_add rt a b =
     (if stringy a \<or> stringy b then JStr (to_string rt a @ to_string rt b)
      else JNum (num_add (to_number rt a) (to_number rt b)))"

section \<open>SettingsStorage\<close>

text \<open>
  The userscript manager's key-value store. \<open>GM_getValue\<close> of a key that was never
  saved, or was deleted, is undefined.
\<close>

type_synonym settings = "string \<rightharpoonup> jsval"

definition load :: "settings \<Rightarrow> string \<Rightarrow> jsval" where
  "load st key = (case st key of None \<Rightarrow> JUndefined | Some v \<Rightarrow> v)"

definition save :: "settings \<Rightarrow> string \<Rightarrow> jsval \<Rightarrow> settings" where
  "save st key v = st(key \<mapsto> v)"

definition delete :: "settings \<Rightarrow> string \<Rightarrow> settings" where
  "delete st key = st(key := None)"

section \<open>Date\<close>

text \<open>
  A \<open>Date\<close> object holds a time value: an integral number of milliseconds since the
  epoch, or NaN (\<open>None\<close>). The functions below are those of ECMA-262, section Date
  Objects, on which \<open>getSeconds\<close>, \<open>setSeconds\<close> and \<open>getTime\<close> are defined.
\<close>

type_synonym date = "int option"

definition msPerSecond :: int where "msPerSecond = 1000"
definition msPerMinute :: int where "msPerMinute = 60000"
definition msPerHour :: int where "msPerHour = 3600000"
definition msPerDay :: int where "msPerDay = 86400000"

definition Day :: "int \<Rightarrow> int" where
  "Day t = t div msPerDay"

definition HourFromTime :: "int \<Rightarrow> int" where
  "HourFromTime t = (t div msPerHour) mod 24"

definition MinFromTime :: "int \<Rightarrow> int" where
  "MinFromTime t = (t div msPerMinute) mod 60"

definition SecFromTime :: "int \<Rightarrow> int" where
  "SecFromTime t = (t div msPerSecond) mod 60"

definition msFromTime :: "int \<Rightarrow> int" where
  "msFromTime t = t mod msPerSecond"

definition LocalTime :: "js_runtime \<Rightarrow> int \<Rightarrow> int" where
  "LocalTime rt t = t + LocalTZA rt t True"

definition UTC :: "js_runtime \<Rightarrow> int \<Rightarrow> int" where
  "UTC rt t = t - LocalTZA rt t False"

text \<open>\<open>ToIntegerOrInfinity\<close> of a finite number truncates towards zero.\<close>

definition to_integer :: "real \<Rightarrow> int" where
  "to_integer x = (if 0 \<le> x then \<lfloor>x\<rfloor> else \<lceil>x\<rceil>)"

text \<open>\<open>MakeTime\<close> and \<open>MakeDate\<close> are NaN as soon as an argument is not finite.\<close>

fun MakeTime :: "int \<Rightarrow> int \<Rightarrow> jsnum \<Rightarrow> int \<Rightarrow> int option" where
  "MakeTime hour mins (Fin sec) ms =
     Some (hour * msPerHour + mins * msPerMinute + to_integer sec * msPerSecond + ms)"
| "MakeTime hour mins sec ms = None"

fun MakeDate :: "int \<Rightarrow> int option \<Rightarrow> int option" where
  "MakeDate day (Some time) = Some (day * msPerDay + time)"
| "MakeDate day None = None"

definition TimeClip :: "int \<Rightarrow> int option" where
  "TimeClip time = (if \<bar>time\<bar> > 8640000000000000 then None else Some time)"

definition getTime :: "date \<Rightarrow> jsval" where
  "getTime d = (case d of None \<Rightarrow> JNum NaN | Some t \<Rightarrow> JNum (Fin (real_of_int t)))"

definition getSeconds :: "js_runtime \<Rightarrow> date \<Rightarrow> jsval" where
  "getSeconds rt d =
     (case d of None \<Rightarrow> JNum NaN
      | Some t \<Rightarrow> JNum (Fin (real_of_int (SecFromTime (LocalTime rt t)))))"

text \<open>
  \<open>Date.prototype.setSeconds(sec)\<close>: the seconds field of the local time is replaced,
  the date is rebuilt from the local fields and converted back to UTC. The result is the
  date's new time value.
\<close>

definition setSeconds :: "js_runtime \<Rightarrow> date \<Rightarrow> jsval \<Rightarrow> date" where
  "setSeconds rt d sec =
     (let s = to_number rt sec in
      case d of None \<Rightarrow> None
      | Some t0 \<Rightarrow>
          (let t = LocalTime rt t0;
               milli = msFromTime t;
               newDate = MakeDate (Day t) (MakeTime (HourFromTime t) (MinFromTime t) s milli)
           in case newDate of None \<Rightarrow> None | Some u \<Rightarrow> TimeClip (UTC rt u)))"

section \<open>AuthToken and AuthTokenValidator\<close>

record AuthToken =
  accessToken :: jsval
  expiresIn :: jsval
  tokenType :: jsval

definition EXPECTED_TOKEN_TYPE :: string where
  "EXPECTED_TOKEN_TYPE = ''Bearer''"

definition isValidAccessToken :: "js_runtime \<Rightarrow> jsval \<Rightarrow> jsval" where
  "isValidAccessToken rt token =
     (if truthy token then JBool (js_gt rt (js_length token) (JNum (Fin 0))) else token)"

definition validateAccessToken :: "js_runtime \<Rightarrow> jsval \<Rightarrow> thrown + unit" where
  "validateAccessToken rt token =
     (if \<not> truthy (isValidAccessToken rt token) then Inl (Error ''Invalid access token.'')
      else Inr ())"

definition isValidExpiresIn :: "js_runtime \<Rightarrow> jsval \<Rightarrow> jsval" where
  "isValidExpiresIn rt e =
     (if truthy e then JBool (js_gt rt e (JNum (Fin 0))) else e)"

definition validateExpiresIn :: "js_runtime \<Rightarrow> jsval \<Rightarrow> thrown + unit" where
  "validateExpiresIn rt e =
     (if \<not> truthy (isValidExpiresIn rt e) then Inl (Error ''Invalid expiration time.'')
      else Inr ())"

definition isValidTokenType :: "jsval \<Rightarrow> jsval" where
  "isValidTokenType tt =
     (if truthy tt then JBool (tt = JStr EXPECTED_TOKEN_TYPE) else tt)"

definition validateTokenType :: "jsval \<Rightarrow> thrown + unit" where
  "validateTokenType data =
     (if \<not> truthy (isValidTokenType (js_get data ''token_type''))
      then Inl (Error ''Invalid token type.'')
      else Inr ())"

text \<open>
  \<open>AuthTokenValidator.validate\<close>: the three checks run in order inside one
  \<open>try\<close>; the first that throws ends the block and is rethrown wrapped.
\<close>

definition validate :: "js_runtime \<Rightarrow> jsval \<Rightarrow> thrown + unit" where
  "validate rt data =
     (if \<not> truthy data then Inl (Error ''No data provided.'')
      else
        (case
           (case validateAccessToken rt (js_get data ''access_token'') of
              Inl e \<Rightarrow> Inl e
            | Inr _ \<Rightarrow>
                (case validateExpiresIn rt (js_get data ''expires_in'') of
                   Inl e \<Rightarrow> Inl e
                 | Inr _ \<Rightarrow> validateTokenType data))
         of
           Inl e \<Rightarrow> Inl (Error (''Invalid data: '' @ thrown_to_string e))
         | Inr u \<Rightarrow> Inr u))"

definition deserialize :: "js_runtime \<Rightarrow> jsval \<Rightarrow> thrown + AuthToken" where
  "deserialize rt data =
     (case validate rt data of
        Inl e \<Rightarrow> Inl (Error (''Failed to validate auth token: '' @ thrown_to_string e))
      | Inr _ \<Rightarrow>
          Inr \<lparr> accessToken = js_get data ''access_token'',
                expiresIn = js_get data ''expires_in'',
                tokenType = js_get data ''token_type'' \<rparr>)"

text \<open>
  \<open>calculateExpirationTimestamp\<close>; \<open>now\<close> is the time value that \<open>new Date()\<close>
  captures.
\<close>

definition calculateExpirationTimestamp :: "js_runtime \<Rightarrow> int \<Rightarrow> AuthToken \<Rightarrow> jsval" where
  "calculateExpirationTimestamp rt now tok =
     (let d = Some now;
          newSeconds = js_add rt (getSeconds rt d) (expiresIn tok);
          d' = setSeconds rt d newSeconds
      in getTime d')"

definition AuthToken_getAccessToken :: "AuthToken \<Rightarrow> jsval" where
  "AuthToken_getAccessToken tok = accessToken tok"

section \<open>TokenService\<close>

definition ACCESS_TOKEN_KEY :: string where
  "ACCESS_TOKEN_KEY = ''ACCESS_TOKEN''"

definition EXPIRATION_TIMESTAMP_KEY :: string where
  "EXPIRATION_TIMESTAMP_KEY = ''EXPIRY_TIME''"

definition saveAuthToken :: "js_runtime \<Rightarrow> int \<Rightarrow> settings \<Rightarrow> AuthToken \<Rightarrow> settings" where
  "saveAuthToken rt now st authToken =
     (let token = AuthToken_getAccessToken authToken;
          expirationTimestamp = calculateExpirationTimestamp rt now authToken;
          st1 = save st ACCESS_TOKEN_KEY token
      in save st1 EXPIRATION_TIMESTAMP_KEY expirationTimestamp)"

definition TokenService_getAccessToken :: "settings \<Rightarrow> jsval" where
  "TokenService_getAccessToken st = load st ACCESS_TOKEN_KEY"

text \<open>\<open>now\<close> is what \<open>Date.now()\<close> returns.\<close>

definition hasTokenExpired :: "js_runtime \<Rightarrow> settings \<Rightarrow> int \<Rightarrow> bool" where
  "hasTokenExpired rt st now =
     (let expiryTime = load st EXPIRATION_TIMESTAMP_KEY
      in \<not> truthy expiryTime \<or> js_gt rt (JNum (Fin (real_of_int now))) expiryTime)"

definition isUserAuthenticated :: "js_runtime \<Rightarrow> settings \<Rightarrow> int \<Rightarrow> jsval" where
  "isUserAuthenticated rt st now =
     (if truthy (TokenService_getAccessToken st) then JBool (\<not> hasTokenExpired rt st now)
      else TokenService_getAccessToken st)"

definition TokenService_reset :: "settings \<Rightarrow> settings" where
  "TokenService_reset st =
     delete (delete st ACCESS_TOKEN_KEY) EXPIRATION_TIMESTAMP_KEY"


section \<open>The page, the network and the user\<close>

text \<open>
  The asynchronous part of the script runs on one thread against three outside parties:
  the server that answers \<open>fetch\<close>, the Google sign-in popup that calls back with a
  token response, and the user who answers \<open>prompt\<close>. Each is a function of how many
  times it was asked before (the server also sees the request). The popup is taken to
  call back; \<open>prompt\<close> returns a string, or null when cancelled.
\<close>

record request =
  req_method :: "string option"
  req_headers :: "(string \<times> string) list option"
  req_body :: "string option"

record response =
  res_status :: nat
  res_json :: "thrown + jsval"

datatype fetch_result = NetworkFailure thrown | Responded response

record environment =
  runtime :: js_runtime
  server :: "nat \<Rightarrow> string \<Rightarrow> request \<Rightarrow> fetch_result"
  popup :: "nat \<Rightarrow> jsval"
  prompt_answer :: "nat \<Rightarrow> jsval"

text \<open>
  What the script does to the outside, in order. \<open>console.error\<close> is recorded with the
  printed form of its argument; the \<open>debug\<close>, \<open>info\<close> and \<open>log\<close> lines are not
  part of the model.
\<close>

datatype event =
    EvFetch string request
  | EvLogin
  | EvDelay nat
  | EvPrompt
  | EvPopup jsval string
  | EvConsoleError string

text \<open>
  The mutable state: the settings store, the clock (advanced by \<open>delay\<close>), the
  \<open>initialized\<close> flag of the one \<open>AuthService\<close>, the \<open>src\<close> of the scripts
  appended to \<open>document.head\<close>, and how often each outside party was asked.
\<close>

record world =
  settings_of :: settings
  clock :: int
  initialized :: bool
  head_scripts :: "string list"
  fetches :: nat
  popups :: nat
  prompts :: nat
  trace :: "event list"

definition emit :: "event \<Rightarrow> world \<Rightarrow> world" where
  "emit ev w = w\<lparr>trace := trace w @ [ev]\<rparr>"

text \<open>
  The \<open>Headers\<close> object is a list of names and values. \<open>set\<close> first strips the
  HTTP whitespace (tab, line feed, carriage return, space) from both ends of the value,
  then throws a TypeError unless the name is a header name (a non-empty token) and the
  stripped value is a header value (no NUL, line feed or carriage return in it); then it
  gives the value to the first header of that name and removes the others of that name, or
  appends the header. \<open>get\<close> joins the values of the headers of a name. Names match
  without regard to the case of ASCII letters. Strings are lists of bytes here, so the
  strings with a character above 255, which \<open>set\<close> also refuses, are not among them. The
  message of the error is the one Chromium gives.
\<close>

type_synonym headers = "(string \<times> string) list"

definition lower_code :: "char \<Rightarrow> nat" where
  "lower_code c = (let n = (of_char c :: nat) in if 65 \<le> n \<and> n \<le> 90 then n + 32 else n)"

definition same_name :: "string \<Rightarrow> string \<Rightarrow> bool" where
  "same_name a b = (map lower_code a = map lower_code b)"

definition http_whitespace :: "char \<Rightarrow> bool" where
  "http_whitespace c =
     (let n = (of_char c :: nat) in n = 9 \<or> n = 10 \<or> n = 13 \<or> n = 32)"

definition http_tab_or_space :: "char \<Rightarrow> bool" where
  "http_tab_or_space c = (let n = (of_char c :: nat) in n = 9 \<or> n = 32)"

definition normalize_value :: "string \<Rightarrow> string" where
  "normalize_value v = rev (dropWhile http_whitespace (rev (dropWhile http_whitespace v)))"

definition tchar :: "char \<Rightarrow> bool" where
  "tchar c =
     (let n = (of_char c :: nat) in
      (48 \<le> n \<and> n \<le> 57) \<or> (65 \<le> n \<and> n \<le> 90) \<or> (97 \<le> n \<and> n \<le> 122)
      \<or> n \<in> set [33, 35, 36, 37, 38, 39, 42, 43, 45, 46, 94, 95, 96, 124, 126])"

definition is_header_name :: "string \<Rightarrow> bool" where
  "is_header_name name = (name \<noteq> [] \<and> list_all tchar name)"

definition is_header_value :: "string \<Rightarrow> bool" where
  "is_header_value v =
     (list_all (\<lambda>c. (of_char c :: nat) \<noteq> 0 \<and> (of_char c :: nat) \<noteq> 10
                    \<and> (of_char c :: nat) \<noteq> 13) v
      \<and> (v = [] \<or> \<not> (http_tab_or_space (hd v) \<or> http_tab_or_space (last v))))"

fun set_header :: "string \<Rightarrow> string \<Rightarrow> headers \<Rightarrow> headers" where
  "set_header name v [] = [(name, v)]"
| "set_header name v (h # hs) =
     (if same_name (fst h) name
      then (fst h, v) # filter (\<lambda>h'. \<not> same_name (fst h') name) hs
      else h # set_header name v hs)"

definition headers_set :: "string \<Rightarrow> string \<Rightarrow> headers \<Rightarrow> thrown + headers" where
  "headers_set name v hs =
     (let v1 = normalize_value v in
      if \<not> is_header_name name then
        Inl (ErrorObj ''TypeError'' ''Failed to execute 'set' on 'Headers': Invalid name'')
      else if \<not> is_header_value v1 then
        Inl (ErrorObj ''TypeError'' ''Failed to execute 'set' on 'Headers': Invalid value'')
      else Inr (set_header name v1 hs))"

definition headers_get :: "string \<Rightarrow> headers \<Rightarrow> string option" where
  "headers_get name hs =
     (let vs = map snd (filter (\<lambda>h. same_name (fst h) name) hs)
      in if vs = [] then None else Some (join '', '' vs))"

definition res_ok :: "response \<Rightarrow> bool" where
  "res_ok res = (200 \<le> res_status res \<and> res_status res \<le> 299)"

section \<open>ClientIdService\<close>

definition CLIENT_ID_KEY :: string where
  "CLIENT_ID_KEY = ''CLIENT_ID''"

definition showClientIdPrompt :: "environment \<Rightarrow> world \<Rightarrow> world \<times> (thrown + jsval)" where
  "showClientIdPrompt env w =
     (let clientId = prompt_answer env (prompts w);
          w1 = emit EvPrompt (w\<lparr>prompts := Suc (prompts w)\<rparr>)
      in if \<not> truthy clientId then (w1, Inl (Error ''No client ID provided.''))
         else (w1\<lparr>settings_of := save (settings_of w1) CLIENT_ID_KEY clientId\<rparr>, Inr clientId))"

definition fetchClientId :: "environment \<Rightarrow> world \<Rightarrow> world \<times> (thrown + jsval)" where
  "fetchClientId env w =
     (let clientId = load (settings_of w) CLIENT_ID_KEY
      in if \<not> truthy clientId then showClientIdPrompt env w else (w, Inr clientId))"

definition ClientIdService_reset :: "world \<Rightarrow> world" where
  "ClientIdService_reset w = w\<lparr>settings_of := delete (settings_of w) CLIENT_ID_KEY\<rparr>"

section \<open>AuthClient\<close>

record AuthClient =
  clientId :: jsval
  scope :: string

definition SCOPES :: "string list" where
  "SCOPES = [''https://www.googleapis.com/auth/youtube'']"

text \<open>
  \<open>getScope\<close> joins with \<open>this.SCOPE_SEPARATOR\<close>, which \<open>AuthClient\<close> does not
  define (the field is \<open>AuthService\<close>'s): \<open>join(undefined)\<close> separates with a comma.
\<close>

definition getScope :: string where
  "getScope = join '','' SCOPES"

definition new_AuthClient :: "jsval \<Rightarrow> AuthClient" where
  "new_AuthClient cid = \<lparr> clientId = cid, scope = getScope \<rparr>"

definition processTokenResponse :: "js_runtime \<Rightarrow> jsval \<Rightarrow> thrown + AuthToken" where
  "processTokenResponse rt data =
     (case deserialize rt data of
        Inr loginResponse \<Rightarrow> Inr loginResponse
      | Inl e \<Rightarrow> Inl (Rejected (''Could not deserialize response: '' @ thrown_to_string e)))"

definition fetchAuthToken :: "environment \<Rightarrow> world \<Rightarrow> AuthClient \<Rightarrow> world \<times> (thrown + AuthToken)" where
  "fetchAuthToken env w client =
     (let data = popup env (popups w);
          w1 = emit (EvPopup (clientId client) (scope client)) (w\<lparr>popups := Suc (popups w)\<rparr>)
      in (w1, processTokenResponse (runtime env) data))"

section \<open>AuthService\<close>

definition GSI_SCRIPT_URL :: string where
  "GSI_SCRIPT_URL = ''https://accounts.google.com/gsi/client''"

definition injectGSIScript :: "world \<Rightarrow> world" where
  "injectGSIScript w = w\<lparr>head_scripts := head_scripts w @ [GSI_SCRIPT_URL]\<rparr>"

text \<open>
  \<open>init\<close> awaits the load event of the injected script; the state it leaves is the one
  below whether or not that event comes.
\<close>

definition init :: "world \<Rightarrow> world" where
  "init w = (if initialized w then w else injectGSIScript (w\<lparr>initialized := True\<rparr>))"

definition createTokenClient :: "environment \<Rightarrow> world \<Rightarrow> world \<times> (thrown + AuthClient)" where
  "createTokenClient env w =
     (case fetchClientId env w of
        (w1, Inl e) \<Rightarrow> (w1, Inl e)
      | (w1, Inr cid) \<Rightarrow>
          if \<not> truthy cid then (w1, Inl (Error ''OAuth client ID is missing or invalid.''))
          else (w1, Inr (new_AuthClient cid)))"

definition authenticate :: "environment \<Rightarrow> world \<Rightarrow> world \<times> thrown option" where
  "authenticate env w =
     (case createTokenClient env w of
        (w1, Inl e) \<Rightarrow> (w1, Some e)
      | (w1, Inr client) \<Rightarrow>
          (case fetchAuthToken env w1 client of
             (w2, Inl e) \<Rightarrow>
               (w2, Some (Error (''Failed to fetch access token: '' @ thrown_to_string e)))
           | (w2, Inr loginResponse) \<Rightarrow>
               (w2\<lparr>settings_of :=
                     saveAuthToken (runtime env) (clock w2) (settings_of w2) loginResponse\<rparr>,
                None)))"

text \<open>\<open>login\<close>; the second component is what it throws, if it does.\<close>

definition login :: "environment \<Rightarrow> world \<Rightarrow> world \<times> thrown option" where
  "login env w =
     (if truthy (isUserAuthenticated (runtime env) (settings_of w) (clock w)) then (w, None)
      else authenticate env w)"

definition logout :: "world \<Rightarrow> world" where
  "logout w = w\<lparr>settings_of := TokenService_reset (settings_of w)\<rparr>"

definition AuthService_getAccessToken :: "world \<Rightarrow> jsval" where
  "AuthService_getAccessToken w = TokenService_getAccessToken (settings_of w)"

definition AuthService_reset :: "world \<Rightarrow> world" where
  "AuthService_reset w =
     (ClientIdService_reset (w\<lparr>settings_of := TokenService_reset (settings_of w)\<rparr>))
       \<lparr>initialized := False\<rparr>"

section \<open>YouTubeApiService\<close>

definition HTTP_UNAUTHORIZED_CODE :: nat where "HTTP_UNAUTHORIZED_CODE = 401"
definition HTTP_FORBIDDEN_CODE :: nat where "HTTP_FORBIDDEN_CODE = 403"
definition RETRY_DELAY_MS :: nat where "RETRY_DELAY_MS = 1000"

definition YOUTUBE_API_BASE_URL :: string where
  "YOUTUBE_API_BASE_URL = ''https://www.googleapis.com/youtube/v3''"

definition AUTHORIZATION_HEADER_KEY :: string where
  "AUTHORIZATION_HEADER_KEY = ''Authorization''"

definition BEARER_TOKEN_PREFIX :: string where
  "BEARER_TOKEN_PREFIX = ''Bearer''"

definition buildUrl :: "string \<Rightarrow> string" where
  "buildUrl endpoint = YOUTUBE_API_BASE_URL @ endpoint"

definition delay :: "nat \<Rightarrow> world \<Rightarrow> world" where
  "delay ms w = emit (EvDelay ms) (w\<lparr>clock := clock w + int ms\<rparr>)"

definition isUnauthorized :: "nat \<Rightarrow> bool" where
  "isUnauthorized status =
     (status = HTTP_UNAUTHORIZED_CODE \<or> status = HTTP_FORBIDDEN_CODE)"

definition getBearerToken :: "environment \<Rightarrow> world \<Rightarrow> string" where
  "getBearerToken env w =
     (let token = AuthService_getAccessToken w
      in BEARER_TOKEN_PREFIX @ '' '' @ to_string (runtime env) token)"

definition getRequestHeaders :: "environment \<Rightarrow> world \<Rightarrow> thrown + headers" where
  "getRequestHeaders env w =
     (let headers = [];
          bearerToken = getBearerToken env w
      in headers_set AUTHORIZATION_HEADER_KEY bearerToken headers)"

definition getRequestOptions :: "environment \<Rightarrow> world \<Rightarrow> thrown + request" where
  "getRequestOptions env w =
     (case getRequestHeaders env w of
        Inl e \<Rightarrow> Inl e
      | Inr headers \<Rightarrow>
          Inr \<lparr> req_method = None, req_headers = Some headers, req_body = None \<rparr>)"

text \<open>
  \<open>executeRequest\<close> and \<open>handleResponse\<close> call each other: on 401 or 403 the
  response handler logs in, waits and calls \<open>executeRequest\<close> again, with nothing that
  counts the rounds. The first argument bounds the number of fetches the model follows.
  The result is the world reached and what the promise has settled with: \<open>None\<close> when
  it has not settled within that many fetches, \<open>Some (Inr v)\<close> when it resolved with
  \<open>v\<close>, \<open>Some (Inl e)\<close> when it rejected with \<open>e\<close>.

  The statements that build the URL and set the Authorization header stand before the
  \<open>try\<close>: when \<open>set\<close> throws there, the promise rejects, nothing is sent and nothing
  is printed. Everything after them is inside the \<open>try\<close>, whose \<open>catch\<close> prints
  the error and lets the function end, so that the promise resolves with undefined. A
  retry that rejects is an error thrown inside \<open>handleResponse\<close>, at its \<open>await\<close>.

  \<open>options\<close> is the caller's object, changed in place: the retry receives it with the
  headers the first round gave it. The callers in the script pass a \<open>Headers\<close> object
  or none, which is what \<open>options.headers.set\<close> needs.
\<close>

fun executeRequest ::
    "nat \<Rightarrow> environment \<Rightarrow> world \<Rightarrow> string \<Rightarrow> request \<Rightarrow> world \<times> (thrown + jsval) option"
and handleResponse ::
    "nat \<Rightarrow> environment \<Rightarrow> world \<Rightarrow> response \<Rightarrow> string \<Rightarrow> request
      \<Rightarrow> world \<times> (thrown + jsval) option"
where
  "executeRequest 0 env w endpoint options = (w, None)"
| "executeRequest (Suc n) env w endpoint options =
     (let url = buildUrl endpoint;
          headers = (case req_headers options of None \<Rightarrow> [] | Some h \<Rightarrow> h)
      in case headers_set AUTHORIZATION_HEADER_KEY (getBearerToken env w) headers of
           Inl e \<Rightarrow> (w, Some (Inl e))
         | Inr headers1 \<Rightarrow>
             (let options1 = options\<lparr>req_headers := Some headers1\<rparr>;
                  w1 = emit (EvFetch url options1) (w\<lparr>fetches := Suc (fetches w)\<rparr>)
              in case server env (fetches w) url options1 of
                   NetworkFailure err \<Rightarrow>
                     (emit (EvConsoleError (thrown_to_string err)) w1, Some (Inr JUndefined))
                 | Responded res \<Rightarrow>
                     (case handleResponse n env w1 res endpoint options1 of
                        (w2, None) \<Rightarrow> (w2, None)
                      | (w2, Some (Inl err)) \<Rightarrow>
                          (emit (EvConsoleError (thrown_to_string err)) w2,
                           Some (Inr JUndefined))
                      | (w2, Some (Inr v)) \<Rightarrow> (w2, Some (Inr v)))))"
| "handleResponse n env w res endpoint options =
     (if res_ok res then
        (case res_json res of Inl e \<Rightarrow> (w, Some (Inl e)) | Inr v \<Rightarrow> (w, Some (Inr v)))
      else if isUnauthorized (res_status res) then
        (case login env (emit EvLogin w) of
           (w1, Some e) \<Rightarrow> (w1, Some (Inl e))
         | (w1, None) \<Rightarrow> executeRequest n env (delay RETRY_DELAY_MS w1) endpoint options)
      else (w, Some (Inl (Error ''Failed to fetch YouTube data.''))))"

section \<open>Date.prototype.toISOString and JSON.stringify\<close>

definition digit :: "nat \<Rightarrow> char" where
  "digit d = char_of (48 + d)"

text \<open>The last \<open>w\<close> decimal digits of \<open>n\<close>, padded with zeros on the left.\<close>

fun pad_digits :: "nat \<Rightarrow> nat \<Rightarrow> string" where
  "pad_digits 0 n = []"
| "pad_digits (Suc w) n = pad_digits w (n div 10) @ [digit (n mod 10)]"

text \<open>
  Year, month (1 to 12) and day of the month of a day number counted from the epoch, in the
  proleptic Gregorian calendar: the numbers that \<open>YearFromTime\<close>, \<open>MonthFromTime\<close>
  (there counted from 0) and \<open>DateFromTime\<close> of ECMA-262 denote, computed in closed
  form on the 400-year cycle that starts on 1 March of year 0.
\<close>

definition civil_from_days :: "int \<Rightarrow> int \<times> int \<times> int" where
  "civil_from_days days =
     (let z = days + 719468;
          era = z div 146097;
          doe = z - era * 146097;
          yoe = (doe - doe div 1460 + doe div 36524 - doe div 146096) div 365;
          y = yoe + era * 400;
          doy = doe - (365 * yoe + yoe div 4 - yoe div 100);
          mp = (5 * doy + 2) div 153;
          d = doy - (153 * mp + 2) div 5 + 1;
          m = (if mp < 10 then mp + 3 else mp - 9)
      in (if m \<le> 2 then y + 1 else y, m, d))"

definition YearFromTime :: "int \<Rightarrow> int" where
  "YearFromTime t = fst (civil_from_days (Day t))"

definition MonthFromTime :: "int \<Rightarrow> int" where
  "MonthFromTime t = fst (snd (civil_from_days (Day t))) - 1"

definition DateFromTime :: "int \<Rightarrow> int" where
  "DateFromTime t = snd (snd (civil_from_days (Day t)))"

definition iso_year :: "int \<Rightarrow> string" where
  "iso_year y =
     (if 0 \<le> y \<and> y \<le> 9999 then pad_digits 4 (nat y)
      else if y < 0 then ''-'' @ pad_digits 6 (nat (- y))
      else ''+'' @ pad_digits 6 (nat y))"

text \<open>\<open>toISOString\<close> prints the UTC fields; on an invalid date it throws a RangeError.\<close>

definition toISOString :: "date \<Rightarrow> thrown + string" where
  "toISOString d =
     (case d of
        None \<Rightarrow> Inl (ErrorObj ''RangeError'' ''Invalid time value'')
      | Some t \<Rightarrow>
          Inr (iso_year (YearFromTime t) @ ''-''
               @ pad_digits 2 (nat (MonthFromTime t + 1)) @ ''-''
               @ pad_digits 2 (nat (DateFromTime t)) @ ''T''
               @ pad_digits 2 (nat (HourFromTime t)) @ '':''
               @ pad_digits 2 (nat (MinFromTime t)) @ '':''
               @ pad_digits 2 (nat (SecFromTime t)) @ ''.''
               @ pad_digits 3 (nat (msFromTime t)) @ ''Z''))"

definition hex_digit :: "nat \<Rightarrow> char" where
  "hex_digit d = (if d < 10 then char_of (48 + d) else char_of (87 + d))"

text \<open>
  \<open>QuoteJSONString\<close>: the quote, the backslash and the control characters are escaped.
\<close>

definition quote_char :: "char \<Rightarrow> string" where
  "quote_char c =
     (let n = (of_char c :: nat) in
      if n = 8 then [CHR 0x5C, CHR ''b'']
      else if n = 9 then [CHR 0x5C, CHR ''t'']
      else if n = 10 then [CHR 0x5C, CHR ''n'']
      else if n = 12 then [CHR 0x5C, CHR ''f'']
      else if n = 13 then [CHR 0x5C, CHR ''r'']
      else if n = 34 then [CHR 0x5C, CHR 0x22]
      else if n = 92 then [CHR 0x5C, CHR 0x5C]
      else if n < 32 then [CHR 0x5C, CHR ''u'', CHR ''0'', CHR ''0'',
                           hex_digit (n div 16), hex_digit (n mod 16)]
      else [c])"

definition quote_json :: "string \<Rightarrow> string" where
  "quote_json s = [CHR 0x22] @ concat (map quote_char s) @ [CHR 0x22]"

text \<open>
  \<open>JSON.stringify\<close> of a data value; \<open>None\<close> is the result undefined. A property
  whose value serialises to undefined is left out of its object, an array element that
  does is printed as null.
\<close>

fun stringify :: "js_runtime \<Rightarrow> jsval \<Rightarrow> string option"
and stringify_elems :: "js_runtime \<Rightarrow> jsval list \<Rightarrow> string list"
and stringify_props :: "js_runtime \<Rightarrow> (string \<times> jsval) list \<Rightarrow> string list"
where
  "stringify rt JUndefined = None"
| "stringify rt JNull = Some ''null''"
| "stringify rt (JBool b) = Some (if b then ''true'' else ''false'')"
| "stringify rt (JNum (Fin x)) = Some (num2str rt x)"
| "stringify rt (JNum n) = Some ''null''"
| "stringify rt (JStr s) = Some (quote_json s)"
| "stringify rt (JArr xs) = Some (''['' @ join '','' (stringify_elems rt xs) @ '']'')"
| "stringify rt (JObj fs) = Some (''{'' @ join '','' (stringify_props rt fs) @ ''}'')"
| "stringify_elems rt [] = []"
| "stringify_elems rt (x # xs) =
     (case stringify rt x of None \<Rightarrow> ''null'' | Some s \<Rightarrow> s) # stringify_elems rt xs"
| "stringify_props rt [] = []"
| "stringify_props rt (kv # fs) =
     (case stringify rt (snd kv) of
        None \<Rightarrow> stringify_props rt fs
      | Some s \<Rightarrow> (quote_json (fst kv) @ '':'' @ s) # stringify_props rt fs)"

section \<open>YouTubeStream and YouTubeStreamService\<close>

record YouTubeStream =
  title :: jsval
  description :: jsval
  startTime :: date
  visibility :: jsval

definition PUBLIC_STREAM_VISIBILITY :: string where "PUBLIC_STREAM_VISIBILITY = ''public''"
definition UNLISTED_STREAM_VISIBILITY :: string where "UNLISTED_STREAM_VISIBILITY = ''unlisted''"
definition PRIVATE_STREAM_VISIBILITY :: string where "PRIVATE_STREAM_VISIBILITY = ''private''"

text \<open>The constructor sets no description: the field stays undefined.\<close>

definition new_YouTubeStream :: "jsval \<Rightarrow> date \<Rightarrow> YouTubeStream" where
  "new_YouTubeStream ttl start =
     \<lparr> title = ttl, description = JUndefined, startTime = start,
       visibility = JStr PRIVATE_STREAM_VISIBILITY \<rparr>"

definition getTitle :: "YouTubeStream \<Rightarrow> jsval" where "getTitle s = title s"
definition getDescription :: "YouTubeStream \<Rightarrow> jsval" where "getDescription s = description s"
definition getStartTime :: "YouTubeStream \<Rightarrow> date" where "getStartTime s = startTime s"
definition getVisibility :: "YouTubeStream \<Rightarrow> jsval" where "getVisibility s = visibility s"

definition setTitle :: "jsval \<Rightarrow> YouTubeStream \<Rightarrow> YouTubeStream" where
  "setTitle v s = s\<lparr>title := v\<rparr>"
definition setDescription :: "jsval \<Rightarrow> YouTubeStream \<Rightarrow> YouTubeStream" where
  "setDescription v s = s\<lparr>description := v\<rparr>"
definition setStartTime :: "date \<Rightarrow> YouTubeStream \<Rightarrow> YouTubeStream" where
  "setStartTime v s = s\<lparr>startTime := v\<rparr>"
definition setVisibility :: "jsval \<Rightarrow> YouTubeStream \<Rightarrow> YouTubeStream" where
  "setVisibility v s = s\<lparr>visibility := v\<rparr>"

definition DUMMY_ENDPOINT :: string where
  "DUMMY_ENDPOINT = ''/channels?part=snippet&mine=true''"

definition CREATE_STREAM_ENDPOINT :: string where
  "CREATE_STREAM_ENDPOINT = ''/liveBroadcasts?part=snippet,status''"

definition dummyApiRequest ::
    "nat \<Rightarrow> environment \<Rightarrow> world \<Rightarrow> world \<times> (thrown + jsval) option" where
  "dummyApiRequest fuel env w =
     executeRequest fuel env w DUMMY_ENDPOINT
       \<lparr> req_method = None, req_headers = None, req_body = None \<rparr>"

text \<open>The object literal \<open>data\<close> of \<open>uploadStream\<close>, and the request body made of it.\<close>

definition uploadStream_data :: "YouTubeStream \<Rightarrow> thrown + jsval" where
  "uploadStream_data stream =
     (case toISOString (getStartTime stream) of
        Inl e \<Rightarrow> Inl e
      | Inr isoTime \<Rightarrow>
          Inr (JObj [(''snippet'',
                      JObj [(''title'', getTitle stream),
                            (''description'', getDescription stream),
                            (''scheduledStartTime'', JStr isoTime)]),
                     (''status'',
                      JObj [(''privacyStatus'', getVisibility stream)])]))"

definition uploadStream_body :: "js_runtime \<Rightarrow> YouTubeStream \<Rightarrow> thrown + string option" where
  "uploadStream_body rt stream =
     (case uploadStream_data stream of
        Inl e \<Rightarrow> Inl e
      | Inr data \<Rightarrow> Inr (stringify rt data))"

definition uploadStream ::
    "nat \<Rightarrow> environment \<Rightarrow> world \<Rightarrow> YouTubeStream \<Rightarrow> world \<times> (thrown + unit) option" where
  "uploadStream fuel env w stream =
     (case getRequestHeaders env w of
        Inl e \<Rightarrow> (w, Some (Inl e))
      | Inr headers \<Rightarrow>
          (case headers_set ''Content-Type'' ''application/json'' headers of
             Inl e \<Rightarrow> (w, Some (Inl e))
           | Inr headers1 \<Rightarrow>
               (case uploadStream_body (runtime env) stream of
                  Inl e \<Rightarrow> (w, Some (Inl e))
                | Inr body \<Rightarrow>
                    (case executeRequest fuel env w CREATE_STREAM_ENDPOINT
                            \<lparr> req_method = Some ''POST'', req_headers = Some headers1,
                              req_body = body \<rparr> of
                       (w1, None) \<Rightarrow> (w1, None)
                     | (w1, Some (Inl e)) \<Rightarrow> (w1, Some (Inl e))
                     | (w1, Some (Inr v)) \<Rightarrow> (w1, Some (Inr ()))))))"

section \<open>DomService\<close>

text \<open>
  The page is a tree of elements (tag name in lower case, attributes, children) and text
  nodes. An element is named by its path from the root: the child indices to follow.
\<close>

datatype node = Element string "(string \<times> string) list" "node list" | Text string

type_synonym path = "nat list"

fun node_at :: "node \<Rightarrow> path \<Rightarrow> node option" where
  "node_at n [] = Some n"
| "node_at (Element tg as cs) (i # p) = (if i < length cs then node_at (cs ! i) p else None)"
| "node_at (Text s) (i # p) = None"

text \<open>The elements of a subtree in document order, its root first, each with its path.\<close>

fun elements_from :: "path \<Rightarrow> node \<Rightarrow> (path \<times> node) list"
and elements_children :: "path \<Rightarrow> nat \<Rightarrow> node list \<Rightarrow> (path \<times> node) list"
where
  "elements_from p (Text s) = []"
| "elements_from p (Element tg as cs) = (p, Element tg as cs) # elements_children p 0 cs"
| "elements_children p i [] = []"
| "elements_children p i (c # cs) = elements_from (p @ [i]) c @ elements_children p (Suc i) cs"

fun textContent :: "node \<Rightarrow> string"
and textContent_list :: "node list \<Rightarrow> string"
where
  "textContent (Text s) = s"
| "textContent (Element tg as cs) = textContent_list cs"
| "textContent_list [] = []"
| "textContent_list (c # cs) = textContent c @ textContent_list cs"

definition has_tag :: "string \<Rightarrow> node \<Rightarrow> bool" where
  "has_tag tg n = (case n of Element tg' as cs \<Rightarrow> tg' = tg | Text s \<Rightarrow> False)"

text \<open>The selector \<open>div[data-rbd-droppable-id="orderOfServiceTable"]\<close>.\<close>

definition is_orderOfServiceTable :: "node \<Rightarrow> bool" where
  "is_orderOfServiceTable n =
     (case n of
        Element tg as cs \<Rightarrow>
          tg = ''div'' \<and> map_of as ''data-rbd-droppable-id'' = Some ''orderOfServiceTable''
      | Text s \<Rightarrow> False)"

text \<open>
  \<open>document.querySelector\<close> looks at every element of the page;
  \<open>element.querySelector\<close> and \<open>querySelectorAll\<close> at the descendants of the
  element, not at the element itself; \<open>closest\<close> at the element and then its ancestors,
  nearest first, up to the root of the page.
\<close>

definition document_querySelector :: "(node \<Rightarrow> bool) \<Rightarrow> node \<Rightarrow> (path \<times> node) option" where
  "document_querySelector sel doc = find (\<lambda>(p, n). sel n) (elements_from [] doc)"

definition querySelectorAll :: "(node \<Rightarrow> bool) \<Rightarrow> path \<times> node \<Rightarrow> (path \<times> node) list" where
  "querySelectorAll sel e = filter (\<lambda>(p, n). sel n) (tl (elements_from (fst e) (snd e)))"

definition querySelector :: "(node \<Rightarrow> bool) \<Rightarrow> path \<times> node \<Rightarrow> (path \<times> node) option" where
  "querySelector sel e = find (\<lambda>(p, n). sel n) (tl (elements_from (fst e) (snd e)))"

definition closest :: "(node \<Rightarrow> bool) \<Rightarrow> node \<Rightarrow> path \<Rightarrow> (path \<times> node) option" where
  "closest sel doc p =
     (case find (\<lambda>q. case node_at doc q of None \<Rightarrow> False | Some n \<Rightarrow> sel n)
             (map (\<lambda>k. take k p) (rev [0..<Suc (length p)])) of
        None \<Rightarrow> None
      | Some q \<Rightarrow> (case node_at doc q of None \<Rightarrow> None | Some n \<Rightarrow> Some (q, n)))"

text \<open>\<open>getSongTitleFromParagraph\<close>: the text of the paragraph, or null (\<open>None\<close>).\<close>

definition getSongTitleFromParagraph :: "node \<Rightarrow> path \<times> node \<Rightarrow> string option" where
  "getSongTitleFromParagraph doc paragraph =
     (let div_el = closest (has_tag ''div'') doc (fst paragraph);
          span_el =
            (case div_el of None \<Rightarrow> None | Some d \<Rightarrow> querySelector (has_tag ''span'') d)
      in case span_el of None \<Rightarrow> None | Some s \<Rightarrow> Some (textContent (snd paragraph)))"

text \<open>
  The body of the \<open>forEach\<close> in \<open>getSongTitles\<close>: a title is pushed when it is truthy,
  that is, neither null nor the empty string.
\<close>

fun collectTitles :: "node \<Rightarrow> (path \<times> node) list \<Rightarrow> string list \<Rightarrow> string list" where
  "collectTitles doc [] songTitles = songTitles"
| "collectTitles doc (paragraph # ps) songTitles =
     (case getSongTitleFromParagraph doc paragraph of
        None \<Rightarrow> collectTitles doc ps songTitles
      | Some ttl \<Rightarrow>
          if ttl \<noteq> [] then collectTitles doc ps (songTitles @ [ttl])
          else collectTitles doc ps songTitles)"

text \<open>
  \<open>getSongTitles\<close>: \<open>None\<close> is the bare \<open>return;\<close> of the branch where the table is
  not found, whose value is undefined.
\<close>

definition getSongTitles :: "node \<Rightarrow> string list option" where
  "getSongTitles doc =
     (let songTitles = [] in
      case document_querySelector is_orderOfServiceTable doc of
        None \<Rightarrow> None
      | Some orderOfServiceTable \<Rightarrow>
          Some (collectTitles doc (querySelectorAll (has_tag ''p'') orderOfServiceTable)
                  songTitles))"

text \<open>
  \<open>onStreamButtonClick\<close> reads \<open>songs.length\<close>: of undefined that is a TypeError,
  which rejects the promise of the handler. Otherwise the handler ends after printing
  either that there are no songs or the songs it found; the result here is those songs.
\<close>

definition onStreamButtonClick :: "node \<Rightarrow> thrown + string list" where
  "onStreamButtonClick doc =
     (case getSongTitles doc of
        None \<Rightarrow>
          Inl (ErrorObj ''TypeError''
                 ''Cannot read properties of undefined (reading 'length')'')
      | Some songs \<Rightarrow> if length songs = 0 then Inr [] else Inr songs)"


section \<open>Concrete runtimes\<close>

text \<open>
  Two instances of the engine's parameters, for evaluating the model on concrete inputs.
  Both convert strings of decimal digits (the empty string is 0, as in ECMAScript; any
  other string is NaN here) and print the integer part of a number in decimal; the
  evaluations below convert and print nothing else. The first runs in UTC. The second has
  the offsets of Europe/Amsterdam around the end of summer time on 27 October 2024: two
  hours ahead of UTC before 01:00 UTC of that day, one hour from then on; a local time
  that occurs twice is read with the offset before the change, as ECMA-262 requires.
\<close>

fun show_nat :: "nat \<Rightarrow> string" where
  "show_nat n = (if n < 10 then [digit n] else show_nat (n div 10) @ [digit (n mod 10)])"

fun decimal_value :: "nat \<Rightarrow> string \<Rightarrow> nat option" where
  "decimal_value acc [] = Some acc"
| "decimal_value acc (c # cs) =
     (let n = (of_char c :: nat) in
      if 48 \<le> n \<and> n \<le> 57 then decimal_value (10 * acc + (n - 48)) cs else None)"

definition decimal_str2num :: "string \<Rightarrow> jsnum" where
  "decimal_str2num s =
     (case decimal_value 0 s of None \<Rightarrow> NaN | Some n \<Rightarrow> Fin (real n))"

definition decimal_num2str :: "real \<Rightarrow> string" where
  "decimal_num2str x =
     (if x < 0 then ''-'' @ show_nat (nat \<lfloor>- x\<rfloor>) else show_nat (nat \<lfloor>x\<rfloor>))"

definition utc_runtime :: js_runtime where
  "utc_runtime =
     \<lparr> str2num = decimal_str2num, num2str = decimal_num2str, LocalTZA = (\<lambda>t isUTC. 0) \<rparr>"

definition amsterdam_runtime :: js_runtime where
  "amsterdam_runtime =
     \<lparr> str2num = decimal_str2num, num2str = decimal_num2str,
       LocalTZA = (\<lambda>t isUTC.
         if isUTC then (if t < 1729990800000 then 7200000 else 3600000)
         else (if t < 1729990800000 + 7200000 then 7200000 else 3600000)) \<rparr>"


section \<open>Observations and concrete inputs\<close>

text \<open>
  What a trace shows of the requests that went out: the URL, the method and the body of
  each \<open>fetch\<close>, in order.
\<close>

definition requests_sent :: "event list \<Rightarrow> (string \<times> string option \<times> string option) list" where
  "requests_sent tr =
     concat (map (\<lambda>ev. case ev of EvFetch u opts \<Rightarrow> [(u, req_method opts, req_body opts)]
                               | _ \<Rightarrow> []) tr)"

text \<open>The events that \<open>login\<close> can cause: the prompt for the client id and the popup.\<close>

definition dialog_event :: "event \<Rightarrow> bool" where
  "dialog_event ev = (case ev of EvPrompt \<Rightarrow> True | EvPopup c s \<Rightarrow> True | _ \<Rightarrow> False)"

text \<open>The value of a header, as \<open>Headers.get\<close> reads it.\<close>

definition header_of :: "string \<Rightarrow> request \<Rightarrow> string option" where
  "header_of name opts =
     (case req_headers opts of None \<Rightarrow> None | Some hs \<Rightarrow> headers_get name hs)"

text \<open>
  What the two statements before the \<open>try\<close> of \<open>executeRequest\<close> make of the
  options: the error that \<open>set\<close> throws, or the options with the Authorization header
  set from the stored token. And the world right after the request went out.
\<close>

definition authorized_options :: "environment \<Rightarrow> world \<Rightarrow> request \<Rightarrow> thrown + request" where
  "authorized_options env w opts =
     (case headers_set AUTHORIZATION_HEADER_KEY (getBearerToken env w)
             (case req_headers opts of None \<Rightarrow> [] | Some h \<Rightarrow> h) of
        Inl e \<Rightarrow> Inl e
      | Inr hs \<Rightarrow> Inr (opts\<lparr>req_headers := Some hs\<rparr>))"

definition sent :: "world \<Rightarrow> string \<Rightarrow> request \<Rightarrow> world" where
  "sent w endpoint opts =
     emit (EvFetch (buildUrl endpoint) opts) (w\<lparr>fetches := Suc (fetches w)\<rparr>)"

text \<open>A token is fit for the Authorization header when \<open>set\<close> accepts its bearer string.\<close>

definition bearer_accepted :: "js_runtime \<Rightarrow> jsval \<Rightarrow> bool" where
  "bearer_accepted rt token =
     is_header_value (normalize_value (BEARER_TOKEN_PREFIX @ '' '' @ to_string rt token))"

text \<open>
  The course of a run, as the trace shows it: each request with its URL, method and body,
  each call of \<open>login\<close>, each wait and each line of \<open>console.error\<close>, in order.
  The dialogs that a login opens are left out.
\<close>

datatype step =
    Sent string "string option" "string option"
  | LoggedIn
  | Waited nat
  | Printed string

fun step_of :: "event \<Rightarrow> step list" where
  "step_of (EvFetch u opts) = [Sent u (req_method opts) (req_body opts)]"
| "step_of EvLogin = [LoggedIn]"
| "step_of (EvDelay ms) = [Waited ms]"
| "step_of (EvConsoleError s) = [Printed s]"
| "step_of EvPrompt = []"
| "step_of (EvPopup c s) = []"

definition course :: "event list \<Rightarrow> step list" where
  "course tr = concat (map step_of tr)"

text \<open>
  What the last round of a request ends with, by the answer it gets that is not 401 or
  403: the lines printed and the value the promise resolves with.
\<close>

fun printed_at_end :: "fetch_result \<Rightarrow> step list" where
  "printed_at_end (NetworkFailure err) = [Printed (thrown_to_string err)]"
| "printed_at_end (Responded res) =
     (if res_ok res then
        (case res_json res of Inl e \<Rightarrow> [Printed (thrown_to_string e)] | Inr v \<Rightarrow> [])
      else [Printed ''Error: Failed to fetch YouTube data.''])"

fun resolved_at_end :: "fetch_result \<Rightarrow> jsval" where
  "resolved_at_end (NetworkFailure err) = JUndefined"
| "resolved_at_end (Responded res) =
     (if res_ok res then (case res_json res of Inl e \<Rightarrow> JUndefined | Inr v \<Rightarrow> v)
      else JUndefined)"

text \<open>A world at the start of a run: nothing asked yet, nothing recorded.\<close>

definition start_world :: "settings \<Rightarrow> int \<Rightarrow> world" where
  "start_world st now =
     \<lparr> settings_of = st, clock = now, initialized = False, head_scripts = [],
       fetches = 0, popups = 0, prompts = 0, trace = [] \<rparr>"

definition signed_in_settings :: settings where
  "signed_in_settings =
     [ACCESS_TOKEN_KEY \<mapsto> JStr ''ya29'', EXPIRATION_TIMESTAMP_KEY \<mapsto> JNum (Fin 5000000),
      CLIENT_ID_KEY \<mapsto> JStr ''client'']"

definition newline_token_settings :: settings where
  "newline_token_settings =
     [ACCESS_TOKEN_KEY \<mapsto> JStr [CHR ''a'', CHR 0x0A, CHR ''b''],
      EXPIRATION_TIMESTAMP_KEY \<mapsto> JNum (Fin 5000000),
      CLIENT_ID_KEY \<mapsto> JStr ''client'']"

definition newline_token_response :: jsval where
  "newline_token_response =
     JObj [(''access_token'', JStr [CHR ''a'', CHR 0x0A, CHR ''b'']),
           (''expires_in'', JNum (Fin 3599)), (''token_type'', JStr ''Bearer'')]"

definition token_response :: jsval where
  "token_response =
     JObj [(''access_token'', JStr ''ya29''), (''expires_in'', JNum (Fin 3599)),
           (''token_type'', JStr ''Bearer'')]"

text \<open>
  A server that answers 403 to the first two requests and 200 with an empty object to
  every later one, and one that answers 500 to everything. The settings of a user who is
  signed in, and settings whose access token has a line feed in the middle: a token
  response with that token passes \<open>validate\<close>, and \<open>saveAuthToken\<close> stores it.
\<close>

definition forbidden_twice_env :: environment where
  "forbidden_twice_env =
     \<lparr> runtime = utc_runtime,
       server = (\<lambda>n u opts.
         if n < 2 then Responded \<lparr> res_status = 403, res_json = Inr JNull \<rparr>
         else Responded \<lparr> res_status = 200, res_json = Inr (JObj []) \<rparr>),
       popup = (\<lambda>n. token_response),
       prompt_answer = (\<lambda>n. JStr ''client'') \<rparr>"

definition failing_env :: environment where
  "failing_env =
     \<lparr> runtime = utc_runtime,
       server = (\<lambda>n u opts. Responded \<lparr> res_status = 500, res_json = Inr JNull \<rparr>),
       popup = (\<lambda>n. token_response),
       prompt_answer = (\<lambda>n. JStr ''client'') \<rparr>"

definition plain_request :: request where
  "plain_request = \<lparr> req_method = None, req_headers = None, req_body = None \<rparr>"

text \<open>
  A plan page without the order-of-service table, and one with it: the first item of the
  table has the marker \<open>span\<close> beside its paragraph, the second has none.
\<close>

definition page_without_table :: node where
  "page_without_table =
     Element ''html'' []
       [Element ''body'' []
          [Element ''div'' [(''class'', ''plan'')]
             [Element ''p'' [] [Text ''Amazing Grace'']]]]"

definition page_with_table :: node where
  "page_with_table =
     Element ''html'' []
       [Element ''body'' []
          [Element ''div'' [(''data-rbd-droppable-id'', ''orderOfServiceTable'')]
             [Element ''div'' []
                [Element ''span'' [] [Text ''song''],
                 Element ''p'' [] [Text ''Amazing Grace'']],
              Element ''div'' []
                [Element ''p'' [] [Text ''Welcome'']]]]]"

section \<open>Properties of the token validator and the token service\<close>

lemma num_gt_zero_truthy:
  "num_gt n (Fin 0) \<Longrightarrow> truthy (JNum n)"
  by (cases n) auto

lemma js_gt_zero_truthy:
  assumes "str2num rt [] = Fin 0" and "js_gt rt v (JNum (Fin 0))"
  shows "truthy v"
  using assms by (cases v) (auto simp: js_gt_def dest: num_gt_zero_truthy split: if_splits)

lemma utc_empty: "str2num utc_runtime [] = Fin 0"
  by (simp add: utc_runtime_def decimal_str2num_def)

text \<open>
  Claim C4. \<open>AuthTokenValidator.validate\<close>, and with it \<open>AuthToken.deserialize\<close>,
  throws on a token response (any value that passes \<open>!data\<close>, an object in particular)
  whose \<open>access_token\<close> is the empty string, or whose \<open>token_type\<close> is a string other
  than \<open>Bearer\<close>, or whose \<open>expires_in\<close> is not greater than 0; and it accepts a
  response with a non-empty string as \<open>access_token\<close>, \<open>Bearer\<close> as \<open>token_type\<close>
  and an \<open>expires_in\<close> greater than 0 (on an engine that converts the empty string to
  the number 0, as ECMAScript does), returning the token with these three fields.
\<close>

theorem validate_rejects_and_accepts:
  assumes "truthy data"
  shows "(js_get data ''access_token'' = JStr []
          \<or> (\<exists>s. js_get data ''token_type'' = JStr s \<and> s \<noteq> ''Bearer'')
          \<or> \<not> js_gt rt (js_get data ''expires_in'') (JNum (Fin 0))
         \<longrightarrow> (\<exists>e. validate rt data = Inl e) \<and> (\<exists>e. deserialize rt data = Inl e))
       \<and> ((\<exists>s. js_get data ''access_token'' = JStr s \<and> s \<noteq> [])
           \<and> js_get data ''token_type'' = JStr ''Bearer''
           \<and> js_gt rt (js_get data ''expires_in'') (JNum (Fin 0))
           \<and> str2num rt [] = Fin 0
         \<longrightarrow> validate rt data = Inr ()
            \<and> deserialize rt data =
                Inr \<lparr> accessToken = js_get data ''access_token'',
                      expiresIn = js_get data ''expires_in'',
                      tokenType = js_get data ''token_type'' \<rparr>)"
proof (intro conjI impI)
  assume bad: "js_get data ''access_token'' = JStr []
          \<or> (\<exists>s. js_get data ''token_type'' = JStr s \<and> s \<noteq> ''Bearer'')
          \<or> \<not> js_gt rt (js_get data ''expires_in'') (JNum (Fin 0))"
  then show v: "\<exists>e. validate rt data = Inl e"
    using assms
    by (auto simp: validate_def validateAccessToken_def validateExpiresIn_def
        validateTokenType_def isValidAccessToken_def isValidExpiresIn_def
        isValidTokenType_def EXPECTED_TOKEN_TYPE_def split: sum.splits)
  then show "\<exists>e. deserialize rt data = Inl e"
    by (auto simp: deserialize_def)
next
  assume ok: "(\<exists>s. js_get data ''access_token'' = JStr s \<and> s \<noteq> [])
           \<and> js_get data ''token_type'' = JStr ''Bearer''
           \<and> js_gt rt (js_get data ''expires_in'') (JNum (Fin 0))
           \<and> str2num rt [] = Fin 0"
  then have t: "truthy (js_get data ''expires_in'')"
    using js_gt_zero_truthy by blast
  from ok obtain s where s: "js_get data ''access_token'' = JStr s" "s \<noteq> []" by blast
  have l: "js_gt rt (js_length (JStr s)) (JNum (Fin 0))"
    using s(2) by (simp add: js_gt_def)
  show v: "validate rt data = Inr ()"
    using assms ok t s l
    by (simp add: validate_def validateAccessToken_def validateExpiresIn_def
        validateTokenType_def isValidAccessToken_def isValidExpiresIn_def
        isValidTokenType_def EXPECTED_TOKEN_TYPE_def)
  then show "deserialize rt data =
                Inr \<lparr> accessToken = js_get data ''access_token'',
                      expiresIn = js_get data ''expires_in'',
                      tokenType = js_get data ''token_type'' \<rparr>"
    by (simp add: deserialize_def)
qed

theorem validate_rejects_and_accepts_witness:
  "truthy (JObj [(''access_token'', JStr ''ya29''), (''expires_in'', JNum (Fin 3599)),
                 (''token_type'', JStr ''Bearer'')])
   \<and> validate utc_runtime
        (JObj [(''access_token'', JStr ''ya29''), (''expires_in'', JNum (Fin 3599)),
               (''token_type'', JStr ''Bearer'')]) = Inr ()
   \<and> truthy (JObj [(''access_token'', JStr ''ya29''), (''expires_in'', JNum (Fin 0)),
                 (''token_type'', JStr ''Bearer'')])
   \<and> (\<exists>e. validate utc_runtime
        (JObj [(''access_token'', JStr ''ya29''), (''expires_in'', JNum (Fin 0)),
               (''token_type'', JStr ''Bearer'')]) = Inl e)"
  using validate_rejects_and_accepts
          [of "JObj [(''access_token'', JStr ''ya29''), (''expires_in'', JNum (Fin 3599)),
                     (''token_type'', JStr ''Bearer'')]" utc_runtime]
        validate_rejects_and_accepts
          [of "JObj [(''access_token'', JStr ''ya29''), (''expires_in'', JNum (Fin 0)),
                     (''token_type'', JStr ''Bearer'')]" utc_runtime]
  by (simp add: utc_empty js_gt_def)

text \<open>
  Claim C5. \<open>isUserAuthenticated\<close> is falsy right after \<open>reset\<close> has deleted the two
  entries, whatever was stored before, and it is falsy whenever the stored expiry
  timestamp lies strictly before the current time.
\<close>

theorem reset_then_unauth:
  "\<not> truthy (isUserAuthenticated rt (TokenService_reset st) now)
   \<and> (\<forall>e. st EXPIRATION_TIMESTAMP_KEY = Some (JNum (Fin e)) \<and> e < real_of_int now
        \<longrightarrow> \<not> truthy (isUserAuthenticated rt st now))"
  by (auto simp: isUserAuthenticated_def TokenService_reset_def delete_def load_def
      TokenService_getAccessToken_def ACCESS_TOKEN_KEY_def EXPIRATION_TIMESTAMP_KEY_def
      hasTokenExpired_def js_gt_def)

theorem reset_then_unauth_witness:
  "[ACCESS_TOKEN_KEY \<mapsto> JStr ''ya29'', EXPIRATION_TIMESTAMP_KEY \<mapsto> JNum (Fin 1000)]
      EXPIRATION_TIMESTAMP_KEY = Some (JNum (Fin 1000))
   \<and> (1000 :: real) < real_of_int 1001
   \<and> \<not> truthy (isUserAuthenticated utc_runtime
         [ACCESS_TOKEN_KEY \<mapsto> JStr ''ya29'', EXPIRATION_TIMESTAMP_KEY \<mapsto> JNum (Fin 1000)] 1001)
   \<and> \<not> truthy (isUserAuthenticated utc_runtime
         (TokenService_reset
           [ACCESS_TOKEN_KEY \<mapsto> JStr ''ya29'', EXPIRATION_TIMESTAMP_KEY \<mapsto> JNum (Fin 1000)]) 1001)"
  using reset_then_unauth
          [of utc_runtime
              "[ACCESS_TOKEN_KEY \<mapsto> JStr ''ya29'', EXPIRATION_TIMESTAMP_KEY \<mapsto> JNum (Fin 1000)]"
              1001]
  by simp

text \<open>
  Claim C3, as the code has it. With an expiry timestamp \<open>e\<close> stored,
  \<open>isUserAuthenticated\<close> returns true exactly when the stored access token is truthy,
  \<open>e\<close> is not 0 and the current time is at most \<open>e\<close>: \<open>hasTokenExpired\<close> tests
  \<open>Date.now() > expiryTime\<close>, so at the expiry instant itself the token still counts.
\<close>

theorem auth_iff:
  assumes "st EXPIRATION_TIMESTAMP_KEY = Some (JNum (Fin e))"
  shows "isUserAuthenticated rt st now = JBool True
         \<longleftrightarrow> truthy (load st ACCESS_TOKEN_KEY) \<and> e \<noteq> 0 \<and> real_of_int now \<le> e"
  using assms
  by (cases "load st ACCESS_TOKEN_KEY")
     (auto simp: isUserAuthenticated_def load_def
      TokenService_getAccessToken_def 
      hasTokenExpired_def js_gt_def)

theorem auth_iff_witness:
  "[ACCESS_TOKEN_KEY \<mapsto> JStr ''ya29'', EXPIRATION_TIMESTAMP_KEY \<mapsto> JNum (Fin 1000)]
      EXPIRATION_TIMESTAMP_KEY = Some (JNum (Fin 1000))
   \<and> isUserAuthenticated utc_runtime
        [ACCESS_TOKEN_KEY \<mapsto> JStr ''ya29'', EXPIRATION_TIMESTAMP_KEY \<mapsto> JNum (Fin 1000)] 999
      = JBool True"
  using auth_iff
          [of "[ACCESS_TOKEN_KEY \<mapsto> JStr ''ya29'', EXPIRATION_TIMESTAMP_KEY \<mapsto> JNum (Fin 1000)]"
              1000 utc_runtime 999]
  by (simp add: load_def ACCESS_TOKEN_KEY_def EXPIRATION_TIMESTAMP_KEY_def)

text \<open>
  The claim as the specification states it asks for false at the expiry instant; there the
  code answers true.
\<close>

theorem auth_at_expiry_counterexample:
  "isUserAuthenticated utc_runtime
     [ACCESS_TOKEN_KEY \<mapsto> JStr ''ya29'', EXPIRATION_TIMESTAMP_KEY \<mapsto> JNum (Fin 1000)] 1000
     = JBool True
   \<and> load [ACCESS_TOKEN_KEY \<mapsto> JStr ''ya29'', EXPIRATION_TIMESTAMP_KEY \<mapsto> JNum (Fin 1000)]
        EXPIRATION_TIMESTAMP_KEY = JNum (Fin (real_of_int 1000))
   \<and> \<not> ((1000 :: int) < 1000)"
  by (simp add: isUserAuthenticated_def load_def TokenService_getAccessToken_def
      hasTokenExpired_def js_gt_def ACCESS_TOKEN_KEY_def EXPIRATION_TIMESTAMP_KEY_def)

section \<open>Properties of the request executor\<close>

text \<open>
  The trace only grows, \<open>login\<close> causes dialog events only and sends nothing, and the
  first thing \<open>executeRequest\<close> does after setting the Authorization header is to send
  the request. The promise rejects exactly when that header cannot be set.
\<close>

lemma emit_simps [simp]:
  "trace (emit ev w) = trace w @ [ev]" "fetches (emit ev w) = fetches w"
  "settings_of (emit ev w) = settings_of w" "clock (emit ev w) = clock w"
  "popups (emit ev w) = popups w" "prompts (emit ev w) = prompts w"
  by (simp_all add: emit_def)

lemma delay_simps [simp]:
  "trace (delay ms w) = trace w @ [EvDelay ms]" "fetches (delay ms w) = fetches w"
  "settings_of (delay ms w) = settings_of w" "clock (delay ms w) = clock w + int ms"
  by (simp_all add: delay_def)

lemma sent_simps [simp]:
  "trace (sent w ep opts) = trace w @ [EvFetch (buildUrl ep) opts]"
  "fetches (sent w ep opts) = Suc (fetches w)"
  "settings_of (sent w ep opts) = settings_of w" "clock (sent w ep opts) = clock w"
  by (simp_all add: sent_def)

lemma showClientIdPrompt_effect:
  "fetches (fst (showClientIdPrompt env w)) = fetches w
   \<and> trace (fst (showClientIdPrompt env w)) = trace w @ [EvPrompt]"
  by (simp add: showClientIdPrompt_def Let_def)

lemma fetchClientId_effect:
  "fetches (fst (fetchClientId env w)) = fetches w
   \<and> (\<exists>evs. trace (fst (fetchClientId env w)) = trace w @ evs \<and> set evs \<subseteq> {EvPrompt})"
  by (simp add: fetchClientId_def Let_def showClientIdPrompt_effect)

lemma createTokenClient_effect:
  "fetches (fst (createTokenClient env w)) = fetches w
   \<and> (\<exists>evs. trace (fst (createTokenClient env w)) = trace w @ evs \<and> set evs \<subseteq> {EvPrompt})"
  using fetchClientId_effect[of env w]
  by (auto simp: createTokenClient_def split: prod.splits sum.splits)

lemma authenticate_effect:
  "fetches (fst (authenticate env w)) = fetches w
   \<and> (\<exists>evs. trace (fst (authenticate env w)) = trace w @ evs \<and> (\<forall>ev \<in> set evs. dialog_event ev))"
proof -
  obtain w1 r where c: "createTokenClient env w = (w1, r)" by (cases "createTokenClient env w")
  from createTokenClient_effect[of env w] c obtain evs where
    e: "fetches w1 = fetches w" "trace w1 = trace w @ evs" "set evs \<subseteq> {EvPrompt}" by auto
  then have q: "\<forall>ev \<in> set evs. dialog_event ev" by (auto simp: dialog_event_def)
  show ?thesis
  proof (cases r)
    case (Inl x)
    then show ?thesis using c e q by (simp add: authenticate_def)
  next
    case (Inr client)
    then show ?thesis using c e q
      by (auto simp: authenticate_def fetchAuthToken_def Let_def dialog_event_def split: sum.splits)
  qed
qed

lemma login_effect:
  "fetches (fst (login env w)) = fetches w
   \<and> (\<exists>evs. trace (fst (login env w)) = trace w @ evs \<and> (\<forall>ev \<in> set evs. dialog_event ev))"
  using authenticate_effect[of env w] by (simp add: login_def)

lemma same_name_refl [simp]: "same_name a a"
  by (simp add: same_name_def)

lemma headers_get_set_header: "headers_get name (set_header name v hs) = Some v"
proof (induction hs)
  case Nil
  then show ?case by (simp add: headers_get_def)
next
  case (Cons h hs)
  show ?case
  proof (cases "same_name (fst h) name")
    case True
    have "filter (\<lambda>h. same_name (fst h) name) (filter (\<lambda>h'. \<not> same_name (fst h') name) hs) = []"
      by (induction hs) auto
    then show ?thesis using True by (simp add: headers_get_def)
  next
    case False
    then show ?thesis using Cons by (simp add: headers_get_def)
  qed
qed

lemma authorization_is_name: "is_header_name AUTHORIZATION_HEADER_KEY"
  by (simp add: is_header_name_def AUTHORIZATION_HEADER_KEY_def tchar_def)

lemma authorized_options_cases:
  "authorized_options env w opts =
     (if bearer_accepted (runtime env) (load (settings_of w) ACCESS_TOKEN_KEY)
      then Inr (opts\<lparr>req_headers := Some (set_header AUTHORIZATION_HEADER_KEY
                   (normalize_value (getBearerToken env w))
                   (case req_headers opts of None \<Rightarrow> [] | Some h \<Rightarrow> h))\<rparr>)
      else Inl (ErrorObj ''TypeError'' ''Failed to execute 'set' on 'Headers': Invalid value''))"
  by (simp add: authorized_options_def headers_set_def authorization_is_name bearer_accepted_def
      getBearerToken_def AuthService_getAccessToken_def TokenService_getAccessToken_def Let_def)

lemma authorized_options_header:
  assumes "authorized_options env w opts = Inr o1"
  shows "header_of AUTHORIZATION_HEADER_KEY o1 = Some (normalize_value (getBearerToken env w))
         \<and> req_method o1 = req_method opts \<and> req_body o1 = req_body opts"
  using assms
  by (auto simp: authorized_options_cases header_of_def headers_get_set_header split: if_splits)

lemma exec_Suc:
  "executeRequest (Suc n) env w ep opts =
     (case authorized_options env w opts of
        Inl e \<Rightarrow> (w, Some (Inl e))
      | Inr o1 \<Rightarrow>
          (case server env (fetches w) (buildUrl ep) o1 of
             NetworkFailure err \<Rightarrow>
               (emit (EvConsoleError (thrown_to_string err)) (sent w ep o1), Some (Inr JUndefined))
           | Responded res \<Rightarrow>
               (case handleResponse n env (sent w ep o1) res ep o1 of
                  (w2, None) \<Rightarrow> (w2, None)
                | (w2, Some (Inl err)) \<Rightarrow>
                    (emit (EvConsoleError (thrown_to_string err)) w2, Some (Inr JUndefined))
                | (w2, Some (Inr v)) \<Rightarrow> (w2, Some (Inr v)))))"
  unfolding authorized_options_def sent_def
  by (simp add: Let_def split: sum.splits)

lemma exec_prefix:
  "prefix (trace w) (trace (fst (executeRequest n env w ep opts)))"
  "prefix (trace w) (trace (fst (handleResponse n env w res ep opts)))"
proof (induction n env w ep opts and n env w res ep opts rule: executeRequest_handleResponse.induct)
  case (1 env w endpoint options)
  then show ?case by simp
next
  case (2 n env w endpoint options)
  show ?case
  proof (cases "authorized_options env w options")
    case (Inl e)
    then show ?thesis by (simp add: exec_Suc del: executeRequest.simps)
  next
    case (Inr o1)
    then have hs: "headers_set AUTHORIZATION_HEADER_KEY (getBearerToken env w)
        (case req_headers options of None \<Rightarrow> [] | Some h \<Rightarrow> h) = Inr (the (req_headers o1))"
      and o1: "o1 = options\<lparr>req_headers := Some (the (req_headers o1))\<rparr>"
      by (auto simp: authorized_options_def split: sum.splits)
    have w1: "sent w endpoint o1
        = emit (EvFetch (buildUrl endpoint) o1) (w\<lparr>fetches := Suc (fetches w)\<rparr>)"
      by (simp add: sent_def)
    have p1: "prefix (trace w) (trace (sent w endpoint o1))" by simp
    show ?thesis
    proof (cases "server env (fetches w) (buildUrl endpoint) o1")
      case (NetworkFailure err)
      then show ?thesis
        using Inr by (simp add: exec_Suc del: executeRequest.simps)
    next
      case (Responded res)
      have "prefix (trace (sent w endpoint o1))
              (trace (fst (handleResponse n env (sent w endpoint o1) res endpoint o1)))"
        using "2.IH"[OF refl refl hs o1 w1] Responded by simp
      with p1 have "prefix (trace w)
              (trace (fst (handleResponse n env (sent w endpoint o1) res endpoint o1)))"
        by (rule prefix_order.trans)
      then show ?thesis
        using Inr Responded
        by (auto simp: exec_Suc prefix_def simp del: executeRequest.simps
            split: prod.splits option.splits sum.splits)
    qed
  qed
next
  case (3 n env w res endpoint options)
  show ?case
  proof (cases "res_ok res")
    case True
    then show ?thesis by (simp split: sum.splits)
  next
    case nok: False
    show ?thesis
    proof (cases "isUnauthorized (res_status res)")
      case False
      then show ?thesis using nok by simp
    next
      case True
      obtain w1 r where l: "login env (emit EvLogin w) = (w1, r)"
        by (cases "login env (emit EvLogin w)")
      from login_effect[of env "emit EvLogin w"] l
      have p: "prefix (trace w) (trace w1)" by (auto simp: prefix_def)
      show ?thesis
      proof (cases r)
        case None
        have ih: "prefix (trace (delay RETRY_DELAY_MS w1))
                (trace (fst (executeRequest n env (delay RETRY_DELAY_MS w1) endpoint options)))"
          using "3.IH"[OF nok True l[symmetric]] None by simp
        have q: "prefix (trace w) (trace (delay RETRY_DELAY_MS w1))"
          using p by (auto simp: prefix_def)
        from q ih have
          "prefix (trace w)
             (trace (fst (executeRequest n env (delay RETRY_DELAY_MS w1) endpoint options)))"
          by (rule prefix_order.trans)
        then show ?thesis
          using nok True l None by simp
      next
        case (Some e)
        then show ?thesis using nok True l p by simp
      qed
    qed
  qed
qed

lemma first_fetch:
  assumes "authorized_options env w opts = Inr o1"
  shows "\<exists>evs. trace (fst (executeRequest (Suc n) env w ep opts)) =
           trace w @ EvFetch (buildUrl ep) o1 # evs"
proof (cases "server env (fetches w) (buildUrl ep) o1")
  case (NetworkFailure err)
  then show ?thesis
    using assms by (simp add: exec_Suc del: executeRequest.simps)
next
  case (Responded res)
  obtain w2 r where h: "handleResponse n env (sent w ep o1) res ep o1 = (w2, r)"
    by (cases "handleResponse n env (sent w ep o1) res ep o1")
  from exec_prefix(2)[of "sent w ep o1" n env res ep o1] h
  obtain zs where "trace w2 = trace (sent w ep o1) @ zs" by (auto simp: prefix_def)
  then show ?thesis
    using assms Responded h
    by (auto simp: exec_Suc simp del: executeRequest.simps split: option.splits sum.splits)
qed

lemma rejects_iff:
  "snd (executeRequest (Suc n) env w ep opts) = Some (Inl e)
   \<longleftrightarrow> authorized_options env w opts = Inl e"
  by (auto simp: exec_Suc simp del: executeRequest.simps
      split: sum.splits fetch_result.splits prod.splits option.splits)

lemma bearer_undefined_accepted: "bearer_accepted rt JUndefined"
  by (simp add: bearer_accepted_def BEARER_TOKEN_PREFIX_def normalize_value_def
      http_whitespace_def is_header_value_def http_tab_or_space_def)

lemma bearer_undefined_normal:
  "normalize_value ''Bearer undefined'' = ''Bearer undefined''"
  by (simp add: normalize_value_def http_whitespace_def)

text \<open>
  Claim C10. While no access token is stored, \<open>executeRequest\<close> still sends the
  request, and its Authorization header is the literal string \<open>Bearer undefined\<close>:
  \<open>getBearerToken\<close> prints the missing token into the template. The method and the
  body are those of the caller.
\<close>

theorem bearer_undefined_sent:
  assumes "load (settings_of w) ACCESS_TOKEN_KEY = JUndefined"
  shows "\<exists>opts1 evs.
           trace (fst (executeRequest (Suc n) env w ep opts)) =
             trace w @ EvFetch (buildUrl ep) opts1 # evs
           \<and> header_of AUTHORIZATION_HEADER_KEY opts1 = Some ''Bearer undefined''
           \<and> req_method opts1 = req_method opts \<and> req_body opts1 = req_body opts"
proof -
  have b: "getBearerToken env w = ''Bearer undefined''"
    using assms
    by (simp add: getBearerToken_def AuthService_getAccessToken_def
        TokenService_getAccessToken_def BEARER_TOKEN_PREFIX_def)
  obtain o1 where o1: "authorized_options env w opts = Inr o1"
    using assms by (simp add: authorized_options_cases bearer_undefined_accepted)
  from first_fetch[OF o1, of n ep] obtain evs where
    "trace (fst (executeRequest (Suc n) env w ep opts)) = trace w @ EvFetch (buildUrl ep) o1 # evs"
    by blast
  moreover note authorized_options_header[OF o1]
  ultimately show ?thesis
    by (intro exI[of _ o1] exI[of _ evs]) (simp add: b bearer_undefined_normal)
qed

theorem bearer_undefined_sent_witness:
  "load (settings_of (start_world Map.empty 0)) ACCESS_TOKEN_KEY = JUndefined
   \<and> (\<exists>opts1 evs.
        trace (fst (executeRequest (Suc 0) failing_env (start_world Map.empty 0)
                      DUMMY_ENDPOINT plain_request)) =
          trace (start_world Map.empty 0) @ EvFetch (buildUrl DUMMY_ENDPOINT) opts1 # evs
        \<and> header_of AUTHORIZATION_HEADER_KEY opts1 = Some ''Bearer undefined'')"
proof -
  have h: "load (settings_of (start_world Map.empty 0)) ACCESS_TOKEN_KEY = JUndefined"
    by (simp add: start_world_def load_def)
  from bearer_undefined_sent[OF h, of 0 failing_env DUMMY_ENDPOINT plain_request] h
  show ?thesis by blast
qed

lemma plain_request_authorized:
  "authorized_options failing_env (start_world Map.empty 0) plain_request
     = Inr \<lparr> req_method = None, req_headers = Some [(''Authorization'', ''Bearer undefined'')],
             req_body = None \<rparr>"
  by (simp add: authorized_options_cases bearer_undefined_accepted start_world_def load_def
      plain_request_def getBearerToken_def AuthService_getAccessToken_def
      TokenService_getAccessToken_def BEARER_TOKEN_PREFIX_def bearer_undefined_normal
      AUTHORIZATION_HEADER_KEY_def failing_env_def)

lemma newline_token_refused:
  "\<not> bearer_accepted utc_runtime (JStr [CHR ''a'', CHR 0x0A, CHR ''b''])"
  by (simp add: bearer_accepted_def BEARER_TOKEN_PREFIX_def normalize_value_def
      http_whitespace_def is_header_value_def)

text \<open>
  Claim C7, as the code has it. The promise of \<open>executeRequest\<close> rejects in one case
  only: when setting the Authorization header, before the \<open>try\<close>, throws; then nothing
  is sent and nothing is printed. Once the header is set, whatever is thrown while fetching
  or handling the response is caught: the error is printed with \<open>console.error\<close> as
  the last thing the call does and the promise resolves with undefined. That holds for a
  failed \<open>fetch\<close> and for every error that \<open>handleResponse\<close> throws, and
  \<open>handleResponse\<close> throws the generic failure for a response that is neither ok nor
  401 or 403, the error of a body that does not parse, the error of a failed \<open>login\<close>,
  and the rejection of the retry.
\<close>

theorem executeRequest_catches:
  "(snd (executeRequest (Suc n) env w ep opts) = Some (Inl e)
      \<longleftrightarrow> authorized_options env w opts = Inl e)
   \<and> (authorized_options env w opts = Inl e
        \<longrightarrow> executeRequest (Suc n) env w ep opts = (w, Some (Inl e)))
   \<and> (authorized_options env w opts = Inr o1
       \<and> server env (fetches w) (buildUrl ep) o1 = NetworkFailure err
        \<longrightarrow> executeRequest (Suc n) env w ep opts
             = (emit (EvConsoleError (thrown_to_string err)) (sent w ep o1), Some (Inr JUndefined)))
   \<and> (authorized_options env w opts = Inr o1
       \<and> server env (fetches w) (buildUrl ep) o1 = Responded res
       \<and> handleResponse n env (sent w ep o1) res ep o1 = (w2, Some (Inl err))
        \<longrightarrow> executeRequest (Suc n) env w ep opts
             = (emit (EvConsoleError (thrown_to_string err)) w2, Some (Inr JUndefined)))
   \<and> (\<not> res_ok res' \<and> \<not> isUnauthorized (res_status res')
        \<longrightarrow> handleResponse n env w' res' ep opts'
             = (w', Some (Inl (Error ''Failed to fetch YouTube data.''))))
   \<and> (res_ok res' \<and> res_json res' = Inl err
        \<longrightarrow> handleResponse n env w' res' ep opts' = (w', Some (Inl err)))
   \<and> (\<not> res_ok res' \<and> isUnauthorized (res_status res')
       \<and> login env (emit EvLogin w') = (w3, Some err)
        \<longrightarrow> handleResponse n env w' res' ep opts' = (w3, Some (Inl err)))
   \<and> (\<not> res_ok res' \<and> isUnauthorized (res_status res')
       \<and> login env (emit EvLogin w') = (w3, None)
       \<and> executeRequest n env (delay RETRY_DELAY_MS w3) ep opts' = (w4, Some (Inl err))
        \<longrightarrow> handleResponse n env w' res' ep opts' = (w4, Some (Inl err)))"
proof (intro conjI)
  show "snd (executeRequest (Suc n) env w ep opts) = Some (Inl e)
      \<longleftrightarrow> authorized_options env w opts = Inl e"
    by (rule rejects_iff)
qed (simp_all add: exec_Suc del: executeRequest.simps)

theorem executeRequest_catches_witness:
  "authorized_options failing_env (start_world Map.empty 0) plain_request
     = Inr \<lparr> req_method = None, req_headers = Some [(''Authorization'', ''Bearer undefined'')],
             req_body = None \<rparr>
   \<and> \<not> res_ok \<lparr> res_status = 500, res_json = Inr JNull \<rparr>
   \<and> \<not> isUnauthorized (res_status \<lparr> res_status = 500, res_json = Inr JNull \<rparr>)
   \<and> snd (executeRequest (Suc 0) failing_env (start_world Map.empty 0) DUMMY_ENDPOINT plain_request)
       = Some (Inr JUndefined)
   \<and> last (trace (fst (executeRequest (Suc 0) failing_env (start_world Map.empty 0)
                         DUMMY_ENDPOINT plain_request)))
       = EvConsoleError ''Error: Failed to fetch YouTube data.''"
proof -
  let ?w = "start_world Map.empty 0"
  let ?o1 = "\<lparr> req_method = None,
               req_headers = Some [(''Authorization'', ''Bearer undefined'')],
               req_body = None \<rparr>"
  let ?res = "\<lparr> res_status = 500, res_json = Inr JNull \<rparr>"
  have s: "server failing_env (fetches ?w) (buildUrl DUMMY_ENDPOINT) ?o1 = Responded ?res"
    by (simp add: failing_env_def)
  have k: "\<not> res_ok ?res" "\<not> isUnauthorized (res_status ?res)"
    by (simp_all add: res_ok_def isUnauthorized_def HTTP_UNAUTHORIZED_CODE_def
        HTTP_FORBIDDEN_CODE_def)
  note t = executeRequest_catches[where n = 0 and env = failing_env and w = ?w
      and ep = DUMMY_ENDPOINT and opts = plain_request and ?o1.0 = ?o1 and res = ?res
      and ?w2.0 = "sent ?w DUMMY_ENDPOINT ?o1" and err = "Error ''Failed to fetch YouTube data.''"
      and res' = ?res and w' = "sent ?w DUMMY_ENDPOINT ?o1" and opts' = ?o1]
  from t k have h: "handleResponse 0 failing_env (sent ?w DUMMY_ENDPOINT ?o1) ?res DUMMY_ENDPOINT ?o1
      = (sent ?w DUMMY_ENDPOINT ?o1, Some (Inl (Error ''Failed to fetch YouTube data.'')))"
    by blast
  from t plain_request_authorized s h have
    "executeRequest (Suc 0) failing_env ?w DUMMY_ENDPOINT plain_request
       = (emit (EvConsoleError (thrown_to_string (Error ''Failed to fetch YouTube data.'')))
            (sent ?w DUMMY_ENDPOINT ?o1), Some (Inr JUndefined))"
    by blast
  then show ?thesis
    using plain_request_authorized k by (simp add: Error_def del: executeRequest.simps)
qed

text \<open>
  The claim as the specification states it says that the promise never rejects. A token
  with a line feed in the middle passes \<open>validate\<close> and is stored; with it stored,
  \<open>Headers.set\<close> refuses the bearer string and the promise rejects with the TypeError,
  with nothing sent and nothing printed.
\<close>

theorem rejection_counterexample:
  "validate utc_runtime newline_token_response = Inr ()
   \<and> load (saveAuthToken utc_runtime 1000 Map.empty
             \<lparr> accessToken = js_get newline_token_response ''access_token'',
               expiresIn = js_get newline_token_response ''expires_in'',
               tokenType = js_get newline_token_response ''token_type'' \<rparr>) ACCESS_TOKEN_KEY
       = load newline_token_settings ACCESS_TOKEN_KEY
   \<and> snd (executeRequest (Suc 0) failing_env (start_world newline_token_settings 1000)
            DUMMY_ENDPOINT plain_request)
       = Some (Inl (ErrorObj ''TypeError'' ''Failed to execute 'set' on 'Headers': Invalid value''))
   \<and> trace (fst (executeRequest (Suc 0) failing_env (start_world newline_token_settings 1000)
                    DUMMY_ENDPOINT plain_request)) = []"
proof -
  have v: "validate utc_runtime newline_token_response = Inr ()"
    by (simp add: validate_def newline_token_response_def validateAccessToken_def
        validateExpiresIn_def validateTokenType_def isValidAccessToken_def isValidExpiresIn_def
        isValidTokenType_def EXPECTED_TOKEN_TYPE_def js_gt_def)
  have l: "load (saveAuthToken utc_runtime 1000 Map.empty
             \<lparr> accessToken = js_get newline_token_response ''access_token'',
               expiresIn = js_get newline_token_response ''expires_in'',
               tokenType = js_get newline_token_response ''token_type'' \<rparr>) ACCESS_TOKEN_KEY
       = load newline_token_settings ACCESS_TOKEN_KEY"
    by (simp add: saveAuthToken_def Let_def save_def load_def AuthToken_getAccessToken_def
        newline_token_response_def newline_token_settings_def ACCESS_TOKEN_KEY_def
        EXPIRATION_TIMESTAMP_KEY_def CLIENT_ID_KEY_def)
  have a: "authorized_options failing_env (start_world newline_token_settings 1000) plain_request
      = Inl (ErrorObj ''TypeError'' ''Failed to execute 'set' on 'Headers': Invalid value'')"
    using newline_token_refused
    by (simp add: authorized_options_cases start_world_def load_def newline_token_settings_def
        failing_env_def ACCESS_TOKEN_KEY_def EXPIRATION_TIMESTAMP_KEY_def CLIENT_ID_KEY_def)
  have "executeRequest (Suc 0) failing_env (start_world newline_token_settings 1000)
            DUMMY_ENDPOINT plain_request
        = (start_world newline_token_settings 1000,
           Some (Inl (ErrorObj ''TypeError'' ''Failed to execute 'set' on 'Headers': Invalid value'')))"
    by (simp add: exec_Suc a del: executeRequest.simps)
  then show ?thesis using v l by (simp add: start_world_def del: executeRequest.simps)
qed

lemma unauthorized_not_ok: "isUnauthorized (res_status r) \<Longrightarrow> \<not> res_ok r"
  by (auto simp: isUnauthorized_def res_ok_def HTTP_UNAUTHORIZED_CODE_def HTTP_FORBIDDEN_CODE_def)

lemma login_succeeds:
  assumes "\<forall>n. truthy (prompt_answer env n)"
      and "\<forall>n. validate (runtime env) (popup env n) = Inr ()"
  shows "snd (login env w) = None"
  using assms
  by (auto simp: login_def authenticate_def createTokenClient_def fetchClientId_def
      showClientIdPrompt_def fetchAuthToken_def processTokenResponse_def deserialize_def
      Let_def split: prod.splits sum.splits if_splits)

lemma login_keeps_bearer:
  assumes "bearer_accepted (runtime env) (load (settings_of w) ACCESS_TOKEN_KEY)"
      and "\<forall>n. bearer_accepted (runtime env) (js_get (popup env n) ''access_token'')"
  shows "bearer_accepted (runtime env) (load (settings_of (fst (login env w))) ACCESS_TOKEN_KEY)"
  using assms
  by (auto simp: login_def authenticate_def createTokenClient_def fetchClientId_def
      showClientIdPrompt_def fetchAuthToken_def processTokenResponse_def deserialize_def
      saveAuthToken_def AuthToken_getAccessToken_def save_def load_def
      ACCESS_TOKEN_KEY_def EXPIRATION_TIMESTAMP_KEY_def CLIENT_ID_KEY_def
      Let_def split: prod.splits sum.splits if_splits)

lemma course_append: "course (a @ b) = course a @ course b"
  by (simp add: course_def)

lemma course_dialogs: "\<forall>ev \<in> set evs. dialog_event ev \<Longrightarrow> course evs = []"
  by (induction evs) (auto simp: dialog_event_def course_def split: event.splits)

lemma retry_round:
  assumes a: "authorized_options env w opts = Inr o1"
      and r: "server env (fetches w) (buildUrl ep) o1 = Responded res"
      and u: "isUnauthorized (res_status res)"
      and l: "login env (emit EvLogin (sent w ep o1)) = (w2, None)"
  shows "executeRequest (Suc n) env w ep opts =
           (case executeRequest n env (delay RETRY_DELAY_MS w2) ep o1 of
              (w3, Some (Inl e)) \<Rightarrow>
                (emit (EvConsoleError (thrown_to_string e)) w3, Some (Inr JUndefined))
            | (w3, r) \<Rightarrow> (w3, r))"
proof -
  have "handleResponse n env (sent w ep o1) res ep o1
          = executeRequest n env (delay RETRY_DELAY_MS w2) ep o1"
    using u unauthorized_not_ok[OF u] l by simp
  then show ?thesis
    using a r
    by (simp add: exec_Suc del: executeRequest.simps split: prod.splits option.splits sum.splits)
qed

lemma failed_login_round:
  assumes a: "authorized_options env w opts = Inr o1"
      and r: "server env (fetches w) (buildUrl ep) o1 = Responded res"
      and u: "isUnauthorized (res_status res)"
      and l: "login env (emit EvLogin (sent w ep o1)) = (w2, Some e)"
  shows "executeRequest (Suc n) env w ep opts =
           (emit (EvConsoleError (thrown_to_string e)) w2, Some (Inr JUndefined))"
proof -
  have "handleResponse n env (sent w ep o1) res ep o1 = (w2, Some (Inl e))"
    using u unauthorized_not_ok[OF u] l by simp
  then show ?thesis
    using a r by (simp add: exec_Suc del: executeRequest.simps)
qed

lemma last_round:
  assumes a: "bearer_accepted (runtime env) (load (settings_of w) ACCESS_TOKEN_KEY)"
      and s: "\<forall>u o1. server env (fetches w) u o1 = answer"
      and f: "\<forall>r. answer = Responded r \<longrightarrow> \<not> isUnauthorized (res_status r)"
  shows "snd (executeRequest (Suc m) env w ep opts) = Some (Inr (resolved_at_end answer))
    \<and> course (trace (fst (executeRequest (Suc m) env w ep opts)))
        = course (trace w) @ [Sent (buildUrl ep) (req_method opts) (req_body opts)]
            @ printed_at_end answer"
proof -
  obtain o1 where o1: "authorized_options env w opts = Inr o1"
    using a by (simp add: authorized_options_cases)
  note h = authorized_options_header[OF o1]
  show ?thesis
  proof (cases answer)
    case (NetworkFailure err)
    then show ?thesis
      using o1 s h
      by (simp add: exec_Suc course_append del: executeRequest.simps)
         (simp add: course_def)
  next
    case (Responded res)
    then have nu: "\<not> isUnauthorized (res_status res)" using f by simp
    show ?thesis
      using o1 s h Responded nu
      by (auto simp: exec_Suc course_append Error_def simp del: executeRequest.simps
          split: sum.splits)
         (simp_all add: course_def)
  qed
qed

lemma rounds:
  assumes "\<forall>i<k. \<forall>u o1. \<exists>r. server env (fetches w + i) u o1 = Responded r
                             \<and> isUnauthorized (res_status r)"
      and "\<forall>u o1. server env (fetches w + k) u o1 = answer"
      and "\<forall>r. answer = Responded r \<longrightarrow> \<not> isUnauthorized (res_status r)"
      and "\<forall>n. truthy (prompt_answer env n)"
      and "\<forall>n. validate (runtime env) (popup env n) = Inr ()"
      and "bearer_accepted (runtime env) (load (settings_of w) ACCESS_TOKEN_KEY)"
      and "\<forall>n. bearer_accepted (runtime env) (js_get (popup env n) ''access_token'')"
  shows "snd (executeRequest (Suc (k + m)) env w ep opts) = Some (Inr (resolved_at_end answer))
    \<and> course (trace (fst (executeRequest (Suc (k + m)) env w ep opts)))
        = course (trace w)
            @ concat (replicate k [Sent (buildUrl ep) (req_method opts) (req_body opts),
                                   LoggedIn, Waited RETRY_DELAY_MS])
            @ [Sent (buildUrl ep) (req_method opts) (req_body opts)]
            @ printed_at_end answer"
  using assms
proof (induction k arbitrary: w opts)
  case 0
  then show ?case using last_round[of env w answer m ep opts] by simp
next
  case (Suc k)
  obtain o1 where o1: "authorized_options env w opts = Inr o1"
    using Suc.prems(6) by (simp add: authorized_options_cases)
  note h = authorized_options_header[OF o1]
  from Suc.prems(1) obtain res where
    r: "server env (fetches w) (buildUrl ep) o1 = Responded res"
    and u: "isUnauthorized (res_status res)"
    by (metis add.right_neutral zero_less_Suc)
  obtain w2 e where lg: "login env (emit EvLogin (sent w ep o1)) = (w2, e)"
    by (cases "login env (emit EvLogin (sent w ep o1))")
  have e: "e = None"
    using login_succeeds[OF Suc.prems(4,5), of "emit EvLogin (sent w ep o1)"] lg by simp
  from login_effect[of env "emit EvLogin (sent w ep o1)"] lg obtain evs where
    f2: "fetches w2 = Suc (fetches w)" and
    t2: "trace w2 = trace w @ [EvFetch (buildUrl ep) o1, EvLogin] @ evs" and
    d: "\<forall>ev \<in> set evs. dialog_event ev"
    by auto
  have b2: "bearer_accepted (runtime env) (load (settings_of w2) ACCESS_TOKEN_KEY)"
    using login_keeps_bearer[of env "emit EvLogin (sent w ep o1)"] Suc.prems(6,7) lg by simp
  define w' where "w' = delay RETRY_DELAY_MS w2"
  have fw: "fetches w' = Suc (fetches w)" by (simp add: w'_def f2)
  have cw: "course (trace w') = course (trace w)
      @ [Sent (buildUrl ep) (req_method opts) (req_body opts), LoggedIn, Waited RETRY_DELAY_MS]"
    using course_dialogs[OF d] h
    by (simp add: w'_def t2 course_append) (simp add: course_def)
  have p1: "\<forall>i<k. \<forall>u o1. \<exists>r. server env (fetches w' + i) u o1 = Responded r
                             \<and> isUnauthorized (res_status r)"
    using Suc.prems(1) fw by (metis Suc_less_eq add_Suc_shift)
  have p2: "\<forall>u o1. server env (fetches w' + k) u o1 = answer"
    using Suc.prems(2) fw by simp
  have p6: "bearer_accepted (runtime env) (load (settings_of w') ACCESS_TOKEN_KEY)"
    using b2 by (simp add: w'_def)
  note ih = Suc.IH[OF p1 p2 Suc.prems(3,4,5) p6 Suc.prems(7), of o1]
  have x: "executeRequest (Suc (Suc k + m)) env w ep opts
             = executeRequest (Suc (k + m)) env w' ep o1"
    using retry_round[OF o1 r u lg[unfolded e], of "Suc (k + m)"] ih
    by (cases "executeRequest (Suc (k + m)) env w' ep o1")
       (simp add: w'_def del: executeRequest.simps)
  show ?case
    unfolding x using ih h by (simp add: cw)
qed

lemma token_response_valid: "validate utc_runtime token_response = Inr ()"
  by (simp add: validate_def token_response_def validateAccessToken_def validateExpiresIn_def
      validateTokenType_def isValidAccessToken_def isValidExpiresIn_def isValidTokenType_def
      EXPECTED_TOKEN_TYPE_def js_gt_def)

lemma ya29_accepted: "bearer_accepted rt (JStr ''ya29'')"
  by (simp add: bearer_accepted_def BEARER_TOKEN_PREFIX_def normalize_value_def
      http_whitespace_def is_header_value_def http_tab_or_space_def)

text \<open>
  Claim C1, as the code has it. Every call of \<open>executeRequest\<close> sets the Authorization
  header from the token stored at that moment and leaves the method and the body of the
  options alone. On a 401 or 403 response \<open>login\<close> is called first. When it throws,
  the error is printed and the promise resolves with undefined, without a retry. When it
  returns, the call waits \<open>RETRY_DELAY_MS\<close> and then calls \<open>executeRequest\<close> again
  with the same endpoint and the same options object; the outcome of that call is the
  outcome of the request (a rejection of it is printed). The retry is an ordinary request,
  so its own 401 or 403 starts another round, without bound: when the server answers 401
  or 403 to the first \<open>k\<close> requests and something else to the next, and \<open>login\<close>
  does not throw (the prompt is answered, the popup returns a valid token) and the tokens
  are fit for a header, the run is \<open>k\<close> times request, login, wait, then one more
  request, then what the last answer calls for: nothing printed and the parsed body
  returned when it is ok, and otherwise the error printed (the generic failure for a
  response that is not ok) and undefined returned.
\<close>

theorem retries_follow_unauthorized:
  "((\<forall>i<k. \<forall>u o1. \<exists>r. server env (fetches w + i) u o1 = Responded r
                             \<and> isUnauthorized (res_status r))
     \<and> (\<forall>u o1. server env (fetches w + k) u o1 = answer)
     \<and> (\<forall>r. answer = Responded r \<longrightarrow> \<not> isUnauthorized (res_status r))
     \<and> (\<forall>n. truthy (prompt_answer env n))
     \<and> (\<forall>n. validate (runtime env) (popup env n) = Inr ())
     \<and> bearer_accepted (runtime env) (load (settings_of w) ACCESS_TOKEN_KEY)
     \<and> (\<forall>n. bearer_accepted (runtime env) (js_get (popup env n) ''access_token''))
    \<longrightarrow> snd (executeRequest (Suc (k + m)) env w ep opts) = Some (Inr (resolved_at_end answer))
      \<and> course (trace (fst (executeRequest (Suc (k + m)) env w ep opts)))
          = course (trace w)
              @ concat (replicate k [Sent (buildUrl ep) (req_method opts) (req_body opts),
                                     LoggedIn, Waited RETRY_DELAY_MS])
              @ [Sent (buildUrl ep) (req_method opts) (req_body opts)]
              @ printed_at_end answer)
   \<and> (authorized_options env w opts = Inr o1
        \<longrightarrow> header_of AUTHORIZATION_HEADER_KEY o1
              = Some (normalize_value (getBearerToken env w))
            \<and> req_method o1 = req_method opts \<and> req_body o1 = req_body opts)
   \<and> (authorized_options env w opts = Inr o1
       \<and> server env (fetches w) (buildUrl ep) o1 = Responded res
       \<and> isUnauthorized (res_status res)
       \<and> login env (emit EvLogin (sent w ep o1)) = (w2, None)
        \<longrightarrow> executeRequest (Suc n) env w ep opts =
             (case executeRequest n env (delay RETRY_DELAY_MS w2) ep o1 of
                (w3, Some (Inl e)) \<Rightarrow>
                  (emit (EvConsoleError (thrown_to_string e)) w3, Some (Inr JUndefined))
              | (w3, r) \<Rightarrow> (w3, r)))
   \<and> (authorized_options env w opts = Inr o1
       \<and> server env (fetches w) (buildUrl ep) o1 = Responded res
       \<and> isUnauthorized (res_status res)
       \<and> login env (emit EvLogin (sent w ep o1)) = (w2, Some err)
        \<longrightarrow> executeRequest (Suc n) env w ep opts =
             (emit (EvConsoleError (thrown_to_string err)) w2, Some (Inr JUndefined)))"
proof (intro conjI impI)
  assume h: "(\<forall>i<k. \<forall>u o1. \<exists>r. server env (fetches w + i) u o1 = Responded r
                             \<and> isUnauthorized (res_status r))
     \<and> (\<forall>u o1. server env (fetches w + k) u o1 = answer)
     \<and> (\<forall>r. answer = Responded r \<longrightarrow> \<not> isUnauthorized (res_status r))
     \<and> (\<forall>n. truthy (prompt_answer env n))
     \<and> (\<forall>n. validate (runtime env) (popup env n) = Inr ())
     \<and> bearer_accepted (runtime env) (load (settings_of w) ACCESS_TOKEN_KEY)
     \<and> (\<forall>n. bearer_accepted (runtime env) (js_get (popup env n) ''access_token''))"
  note r = rounds[of k env w answer m ep opts]
  from h r show "snd (executeRequest (Suc (k + m)) env w ep opts)
      = Some (Inr (resolved_at_end answer))" by blast
  from h r show "course (trace (fst (executeRequest (Suc (k + m)) env w ep opts)))
          = course (trace w)
              @ concat (replicate k [Sent (buildUrl ep) (req_method opts) (req_body opts),
                                     LoggedIn, Waited RETRY_DELAY_MS])
              @ [Sent (buildUrl ep) (req_method opts) (req_body opts)]
              @ printed_at_end answer" by blast
next
  assume "authorized_options env w opts = Inr o1"
  from authorized_options_header[OF this]
  show "header_of AUTHORIZATION_HEADER_KEY o1 = Some (normalize_value (getBearerToken env w))"
    "req_method o1 = req_method opts" "req_body o1 = req_body opts"
    by simp_all
next
  assume "authorized_options env w opts = Inr o1
       \<and> server env (fetches w) (buildUrl ep) o1 = Responded res
       \<and> isUnauthorized (res_status res)
       \<and> login env (emit EvLogin (sent w ep o1)) = (w2, None)"
  then show "executeRequest (Suc n) env w ep opts =
             (case executeRequest n env (delay RETRY_DELAY_MS w2) ep o1 of
                (w3, Some (Inl e)) \<Rightarrow>
                  (emit (EvConsoleError (thrown_to_string e)) w3, Some (Inr JUndefined))
              | (w3, r) \<Rightarrow> (w3, r))"
    using retry_round by blast
next
  assume "authorized_options env w opts = Inr o1
       \<and> server env (fetches w) (buildUrl ep) o1 = Responded res
       \<and> isUnauthorized (res_status res)
       \<and> login env (emit EvLogin (sent w ep o1)) = (w2, Some err)"
  then show "executeRequest (Suc n) env w ep opts =
             (emit (EvConsoleError (thrown_to_string err)) w2, Some (Inr JUndefined))"
    using failed_login_round by blast
qed

theorem retries_follow_unauthorized_witness:
  "validate (runtime forbidden_twice_env) (popup forbidden_twice_env 0) = Inr ()
   \<and> isUnauthorized 403 \<and> \<not> isUnauthorized 200
   \<and> bearer_accepted (runtime forbidden_twice_env)
        (load (settings_of (start_world signed_in_settings 1000)) ACCESS_TOKEN_KEY)
   \<and> snd (executeRequest (Suc (2 + 0)) forbidden_twice_env (start_world signed_in_settings 1000)
            DUMMY_ENDPOINT plain_request) = Some (Inr (JObj []))
   \<and> course (trace (fst (executeRequest (Suc (2 + 0)) forbidden_twice_env
        (start_world signed_in_settings 1000) DUMMY_ENDPOINT plain_request)))
      = [Sent (buildUrl DUMMY_ENDPOINT) None None, LoggedIn, Waited 1000,
         Sent (buildUrl DUMMY_ENDPOINT) None None, LoggedIn, Waited 1000,
         Sent (buildUrl DUMMY_ENDPOINT) None None]"
proof -
  let ?w = "start_world signed_in_settings 1000"
  let ?answer = "Responded \<lparr> res_status = 200, res_json = Inr (JObj []) \<rparr>"
  have f: "fetches ?w = 0" "trace ?w = []"
    by (simp_all add: start_world_def)
  have u: "isUnauthorized 403" "\<not> isUnauthorized 200"
    by (simp_all add: isUnauthorized_def HTTP_UNAUTHORIZED_CODE_def HTTP_FORBIDDEN_CODE_def)
  have h1: "\<forall>i<2. \<forall>u o1. \<exists>r.
      server forbidden_twice_env (fetches ?w + i) u o1
        = Responded r \<and> isUnauthorized (res_status r)"
    using u by (simp add: f forbidden_twice_env_def)
  have h2: "\<forall>u o1. server forbidden_twice_env (fetches ?w + 2) u o1 = ?answer"
    by (simp add: f forbidden_twice_env_def)
  have h2': "\<forall>r. ?answer = Responded r \<longrightarrow> \<not> isUnauthorized (res_status r)"
    using u by auto
  have h3: "\<forall>n. truthy (prompt_answer forbidden_twice_env n)"
    by (simp add: forbidden_twice_env_def)
  have h4: "\<forall>n. validate (runtime forbidden_twice_env) (popup forbidden_twice_env n) = Inr ()"
    by (simp add: forbidden_twice_env_def token_response_valid)
  have h5: "bearer_accepted (runtime forbidden_twice_env)
      (load (settings_of ?w) ACCESS_TOKEN_KEY)"
    by (simp add: start_world_def signed_in_settings_def load_def ya29_accepted
        ACCESS_TOKEN_KEY_def EXPIRATION_TIMESTAMP_KEY_def CLIENT_ID_KEY_def)
  have h6: "\<forall>n. bearer_accepted (runtime forbidden_twice_env)
      (js_get (popup forbidden_twice_env n) ''access_token'')"
    by (simp add: forbidden_twice_env_def token_response_def ya29_accepted)
  have ok: "res_ok \<lparr> res_status = 200, res_json = Inr (JObj []) \<rparr>"
    by (simp add: res_ok_def)
  from retries_follow_unauthorized[where k = 2 and env = forbidden_twice_env and w = ?w
      and answer = ?answer and m = 0 and ep = DUMMY_ENDPOINT and opts = plain_request,
      THEN conjunct1] h1 h2 h2' h3 h4 h5 h6
  have "snd (executeRequest (Suc (2 + 0)) forbidden_twice_env ?w DUMMY_ENDPOINT plain_request)
          = Some (Inr (resolved_at_end ?answer))
      \<and> course (trace (fst (executeRequest (Suc (2 + 0)) forbidden_twice_env ?w
            DUMMY_ENDPOINT plain_request)))
          = course (trace ?w)
              @ concat (replicate 2 [Sent (buildUrl DUMMY_ENDPOINT) (req_method plain_request)
                                       (req_body plain_request),
                                     LoggedIn, Waited RETRY_DELAY_MS])
              @ [Sent (buildUrl DUMMY_ENDPOINT) (req_method plain_request)
                   (req_body plain_request)]
              @ printed_at_end ?answer"
    by blast
  then show ?thesis
    using h4 u h5 ok
    by (simp add: f course_def plain_request_def RETRY_DELAY_MS_def numeral_2_eq_2
        del: executeRequest.simps)
qed

text \<open>
  The claim as the specification states it allows one retry. With a token that is stored
  and not expired, \<open>login\<close> returns at once; a server that answers 403 twice is asked a
  third time, and a server that always answers 403 is asked for ever.
\<close>

theorem second_retry_counterexample:
  "requests_sent (trace (fst (executeRequest (Suc (Suc (Suc 0))) forbidden_twice_env
      (start_world signed_in_settings 1000) DUMMY_ENDPOINT plain_request)))
     = [(''https://www.googleapis.com/youtube/v3/channels?part=snippet&mine=true'', None, None),
        (''https://www.googleapis.com/youtube/v3/channels?part=snippet&mine=true'', None, None),
        (''https://www.googleapis.com/youtube/v3/channels?part=snippet&mine=true'', None, None)]
   \<and> snd (executeRequest (Suc (Suc (Suc 0))) forbidden_twice_env
      (start_world signed_in_settings 1000) DUMMY_ENDPOINT plain_request)
     = Some (Inr (JObj []))"
proof -
  have b: "is_header_value (normalize_value ''Bearer ya29'')"
    using ya29_accepted[of utc_runtime] by (simp add: bearer_accepted_def BEARER_TOKEN_PREFIX_def)
  have n: "is_header_name ''Authorization''"
    using authorization_is_name by (simp add: AUTHORIZATION_HEADER_KEY_def)
  show ?thesis
    by (simp add: Let_def forbidden_twice_env_def start_world_def signed_in_settings_def
      plain_request_def DUMMY_ENDPOINT_def buildUrl_def YOUTUBE_API_BASE_URL_def
      res_ok_def isUnauthorized_def HTTP_UNAUTHORIZED_CODE_def HTTP_FORBIDDEN_CODE_def
      login_def isUserAuthenticated_def TokenService_getAccessToken_def load_def
      hasTokenExpired_def js_gt_def ACCESS_TOKEN_KEY_def EXPIRATION_TIMESTAMP_KEY_def
      CLIENT_ID_KEY_def emit_def delay_def RETRY_DELAY_MS_def requests_sent_def
      headers_set_def getBearerToken_def AuthService_getAccessToken_def
      BEARER_TOKEN_PREFIX_def AUTHORIZATION_HEADER_KEY_def b n)
qed

text \<open>
  Claim C9. \<open>AuthService.init\<close> is idempotent: a second call changes nothing, the flag
  is set after the first, and starting from an uninitialised service two calls leave
  exactly one more script in the head of the page.
\<close>

theorem init_idempotent:
  "init (init w) = init w \<and> initialized (init w)
   \<and> (\<not> initialized w \<longrightarrow> head_scripts (init (init w)) = head_scripts w @ [GSI_SCRIPT_URL])
   \<and> (initialized w \<longrightarrow> init w = w)"
  by (simp add: init_def injectGSIScript_def)

theorem init_idempotent_witness:
  "\<not> initialized (start_world Map.empty 0)
   \<and> head_scripts (init (init (start_world Map.empty 0))) = [GSI_SCRIPT_URL]
   \<and> initialized (init (start_world Map.empty 0))
   \<and> init (init (init (start_world Map.empty 0))) = init (start_world Map.empty 0)"
  using init_idempotent[of "start_world Map.empty 0"] init_idempotent[of "init (start_world Map.empty 0)"]
  by (simp add: start_world_def init_def injectGSIScript_def)

section \<open>Properties of the stream service\<close>

lemma digit_values:
  "digit 0 = CHR ''0''" "digit 1 = CHR ''1''" "digit 2 = CHR ''2''" "digit 3 = CHR ''3''"
  "digit 4 = CHR ''4''" "digit 5 = CHR ''5''" "digit 6 = CHR ''6''" "digit 7 = CHR ''7''"
  "digit 8 = CHR ''8''" "digit 9 = CHR ''9''" "digit (Suc 0) = CHR ''1''"
  unfolding digit_def by code_simp+

lemma pad2: "pad_digits 2 n = [digit (n div 10 mod 10), digit (n mod 10)]"
  by (simp add: numeral_2_eq_2)

lemma pad3: "pad_digits 3 n = [digit (n div 100 mod 10), digit (n div 10 mod 10), digit (n mod 10)]"
  by (simp add: numeral_3_eq_3 div_mult2_eq[symmetric])

lemma pad4: "pad_digits 4 n = [digit (n div 1000 mod 10), digit (n div 100 mod 10), digit (n div 10 mod 10), digit (n mod 10)]"
proof -
  have "pad_digits (Suc 3) n = pad_digits 3 (n div 10) @ [digit (n mod 10)]"
    by (rule pad_digits.simps(2))
  moreover have "Suc 3 = 4" by simp
  ultimately have "pad_digits 4 n = pad_digits 3 (n div 10) @ [digit (n mod 10)]"
    by (simp only:)
  moreover have "n div 10 div 100 = n div 1000" "n div 10 div 10 = n div 100"
    by (simp_all add: div_mult2_eq[symmetric])
  ultimately show ?thesis by (simp add: pad3)
qed

lemma civil_2025: "civil_from_days 20089 = (2025, 1, 1)"
  unfolding civil_from_days_def Let_def by simp

lemma day_2025: "Day 1735689600000 = 20089"
  by (simp add: Day_def msPerDay_def)

lemma fields_2025:
  "YearFromTime 1735689600000 = 2025" "MonthFromTime 1735689600000 = 0"
  "DateFromTime 1735689600000 = 1" "HourFromTime 1735689600000 = 0"
  "MinFromTime 1735689600000 = 0" "SecFromTime 1735689600000 = 0"
  "msFromTime 1735689600000 = 0"
  by (simp_all add: YearFromTime_def MonthFromTime_def DateFromTime_def day_2025 civil_2025
      HourFromTime_def msPerHour_def MinFromTime_def msPerMinute_def SecFromTime_def
      msPerSecond_def msFromTime_def)

lemma iso_year_2025: "iso_year 2025 = ''2025''"
  by (simp add: iso_year_def pad4 digit_values)

lemma toISOString_2025: "toISOString (Some 1735689600000) = Inr ''2025-01-01T00:00:00.000Z''"
  by (simp add: toISOString_def fields_2025 iso_year_2025 pad2 pad3 digit_values)

lemma content_type_header:
  "is_header_name ''Content-Type''" "normalize_value ''application/json'' = ''application/json''"
  "is_header_value ''application/json''" "\<not> same_name ''Authorization'' ''Content-Type''"
  "\<not> same_name ''Content-Type'' ''Authorization''"
  by (simp_all add: is_header_name_def tchar_def normalize_value_def http_whitespace_def
      is_header_value_def http_tab_or_space_def same_name_def lower_code_def)

text \<open>
  Claim C6. For the stream titled \<open>Worship Night\<close> that starts at
  2025-01-01T00:00:00Z (time value 1735689600000), with no description set and the
  default visibility, the body that \<open>uploadStream\<close> serialises is the string below: the
  undefined description is left out, the privacy status is \<open>private\<close> and the start
  time is printed as \<open>2025-01-01T00:00:00.000Z\<close>. When the stored token is fit for the
  Authorization header, it is the body of the request that \<open>uploadStream\<close> sends.
\<close>

theorem worship_night_body:
  \<open>uploadStream_body rt (new_YouTubeStream (JStr ''Worship Night'') (Some 1735689600000))
     = Inr (Some ''{"snippet":{"title":"Worship Night","scheduledStartTime":"2025-01-01T00:00:00.000Z"},"status":{"privacyStatus":"private"}}'')
   \<and> sublist ''"privacyStatus":"private"''
        ''{"snippet":{"title":"Worship Night","scheduledStartTime":"2025-01-01T00:00:00.000Z"},"status":{"privacyStatus":"private"}}''
   \<and> sublist ''"scheduledStartTime":"2025-01-01T00:00:00.000Z"''
        ''{"snippet":{"title":"Worship Night","scheduledStartTime":"2025-01-01T00:00:00.000Z"},"status":{"privacyStatus":"private"}}''
   \<and> (bearer_accepted (runtime env) (load (settings_of w) ACCESS_TOKEN_KEY)
        \<longrightarrow> (\<exists>evs.
         trace (fst (uploadStream (Suc n) env w
                      (new_YouTubeStream (JStr ''Worship Night'') (Some 1735689600000))))
           = trace w @ EvFetch (buildUrl CREATE_STREAM_ENDPOINT)
               \<lparr> req_method = Some ''POST'',
                 req_headers = Some [(''Authorization'', normalize_value (getBearerToken env w)),
                                     (''Content-Type'', ''application/json'')],
                 req_body = Some ''{"snippet":{"title":"Worship Night","scheduledStartTime":"2025-01-01T00:00:00.000Z"},"status":{"privacyStatus":"private"}}'' \<rparr> # evs))\<close>
proof (intro conjI impI)
  let ?stream = "new_YouTubeStream (JStr ''Worship Night'') (Some 1735689600000)"
  let ?body = \<open>''{"snippet":{"title":"Worship Night","scheduledStartTime":"2025-01-01T00:00:00.000Z"},"status":{"privacyStatus":"private"}}''\<close>
  show b: "uploadStream_body rt ?stream = Inr (Some ?body)" for rt
    by (simp add: uploadStream_body_def uploadStream_data_def toISOString_2025
        new_YouTubeStream_def getStartTime_def getTitle_def getDescription_def
        getVisibility_def PRIVATE_STREAM_VISIBILITY_def quote_json_def quote_char_def)
  have \<open>?body = ''{"snippet":{"title":"Worship Night","scheduledStartTime":"2025-01-01T00:00:00.000Z"},"status":{''
          @ ''"privacyStatus":"private"'' @ ''}}''\<close>
    by simp
  then show "sublist ''\"privacyStatus\":\"private\"'' ?body"
    unfolding sublist_def by blast
  have \<open>?body = ''{"snippet":{"title":"Worship Night",''
          @ ''"scheduledStartTime":"2025-01-01T00:00:00.000Z"'' @ ''},"status":{"privacyStatus":"private"}}''\<close>
    by simp
  then show "sublist ''\"scheduledStartTime\":\"2025-01-01T00:00:00.000Z\"'' ?body"
    unfolding sublist_def by blast
  assume a: "bearer_accepted (runtime env) (load (settings_of w) ACCESS_TOKEN_KEY)"
  let ?v = "normalize_value (getBearerToken env w)"
  define opts where "opts = \<lparr> req_method = Some ''POST'',
      req_headers = Some [(''Authorization'', ?v), (''Content-Type'', ''application/json'')],
      req_body = Some ?body \<rparr>"
  have g: "getRequestHeaders env w = Inr [(''Authorization'', ?v)]"
    using a
    by (simp add: getRequestHeaders_def headers_set_def authorization_is_name
        bearer_accepted_def getBearerToken_def AuthService_getAccessToken_def
        TokenService_getAccessToken_def Let_def)
       (simp add: AUTHORIZATION_HEADER_KEY_def)
  have c: "headers_set ''Content-Type'' ''application/json'' [(''Authorization'', ?v)]
      = Inr [(''Authorization'', ?v), (''Content-Type'', ''application/json'')]"
    by (simp add: headers_set_def content_type_header)
  have o: "authorized_options env w opts = Inr opts"
    using a
    by (simp add: authorized_options_cases opts_def AUTHORIZATION_HEADER_KEY_def
        content_type_header)
  from first_fetch[OF o, of n CREATE_STREAM_ENDPOINT] obtain evs where
    e: "trace (fst (executeRequest (Suc n) env w CREATE_STREAM_ENDPOINT opts)) =
     trace w @ EvFetch (buildUrl CREATE_STREAM_ENDPOINT) opts # evs" by blast
  have u: "fst (uploadStream (Suc n) env w ?stream)
           = fst (executeRequest (Suc n) env w CREATE_STREAM_ENDPOINT opts)"
    by (simp add: uploadStream_def g c b opts_def del: executeRequest.simps
        split: prod.splits option.splits sum.splits)
  show "\<exists>evs.
         trace (fst (uploadStream (Suc n) env w ?stream))
           = trace w @ EvFetch (buildUrl CREATE_STREAM_ENDPOINT)
               \<lparr> req_method = Some ''POST'',
                 req_headers = Some [(''Authorization'', ?v),
                                     (''Content-Type'', ''application/json'')],
                 req_body = Some ?body \<rparr> # evs"
    unfolding u e by (simp add: opts_def)
qed

theorem worship_night_body_witness:
  \<open>bearer_accepted (runtime failing_env)
      (load (settings_of (start_world Map.empty 0)) ACCESS_TOKEN_KEY)
   \<and> (\<exists>evs.
         trace (fst (uploadStream (Suc 0) failing_env (start_world Map.empty 0)
                      (new_YouTubeStream (JStr ''Worship Night'') (Some 1735689600000))))
           = EvFetch (buildUrl CREATE_STREAM_ENDPOINT)
               \<lparr> req_method = Some ''POST'',
                 req_headers = Some [(''Authorization'', ''Bearer undefined''),
                                     (''Content-Type'', ''application/json'')],
                 req_body = Some ''{"snippet":{"title":"Worship Night","scheduledStartTime":"2025-01-01T00:00:00.000Z"},"status":{"privacyStatus":"private"}}'' \<rparr> # evs)\<close>
proof -
  have a: "bearer_accepted (runtime failing_env)
      (load (settings_of (start_world Map.empty 0)) ACCESS_TOKEN_KEY)"
    by (simp add: start_world_def load_def bearer_undefined_accepted)
  have g: "normalize_value (getBearerToken failing_env (start_world Map.empty 0))
      = ''Bearer undefined''"
    by (simp add: getBearerToken_def AuthService_getAccessToken_def
        TokenService_getAccessToken_def start_world_def load_def BEARER_TOKEN_PREFIX_def
        bearer_undefined_normal)
  have t: "trace (start_world Map.empty 0) = []"
    by (simp add: start_world_def)
  from worship_night_body[where env = failing_env and w = "start_world Map.empty 0" and n = 0,
      THEN conjunct2, THEN conjunct2, THEN conjunct2] a
  show ?thesis unfolding g t by (simp del: executeRequest.simps)
qed

section \<open>The expiration timestamp\<close>

text \<open>
  The fields of a time value add up to it, so in a time zone whose offset never changes
  \<open>setSeconds\<close> with the seconds moved by \<open>e\<close> adds \<open>e\<close> seconds, as long as the
  result is in the range of \<open>Date\<close>.
\<close>

lemma time_fields_sum:
  "Day t * msPerDay + (HourFromTime t * msPerHour + MinFromTime t * msPerMinute
     + SecFromTime t * msPerSecond + msFromTime t) = t"
proof -
  define s where "s = t div 1000"
  define mi where "mi = s div 60"
  define h where "h = mi div 60"
  define q where "q = h div 24"
  define r1 where "r1 = t mod 1000"
  define r2 where "r2 = s mod 60"
  define r3 where "r3 = mi mod 60"
  define r4 where "r4 = h mod 24"
  have a: "t div 60000 = mi" "t div 3600000 = h" "t div 86400000 = q"
    unfolding q_def h_def mi_def s_def by (simp_all add: zdiv_zmult2_eq[symmetric])
  have e1: "t = s * 1000 + r1" by (simp add: s_def r1_def)
  have e2: "s = mi * 60 + r2" by (simp add: mi_def r2_def)
  have e3: "mi = h * 60 + r3" by (simp add: h_def r3_def)
  have e4: "h = q * 24 + r4" by (simp add: q_def r4_def)
  have "q * 86400000 + (r4 * 3600000 + r3 * 60000 + r2 * 1000 + r1) = t"
    using e1 e2 e3 e4 by linarith
  then show ?thesis
    by (simp add: Day_def HourFromTime_def MinFromTime_def SecFromTime_def msFromTime_def
        msPerDay_def msPerHour_def msPerMinute_def msPerSecond_def a s_def[symmetric]
        r1_def r2_def r3_def r4_def)
qed

lemma to_integer_of_int: "to_integer (real_of_int a + real_of_int b) = a + b"
proof -
  have "real_of_int a + real_of_int b = real_of_int (a + b)" by simp
  then show ?thesis unfolding to_integer_def by (simp del: of_int_add)
qed

lemma expiry_fixed_offset:
  assumes z: "\<forall>t u. LocalTZA rt t u = c"
      and r: "\<bar>now + e * 1000\<bar> \<le> 8640000000000000"
  shows "calculateExpirationTimestamp rt now
           \<lparr> accessToken = a, expiresIn = JNum (Fin (real_of_int e)), tokenType = tt \<rparr>
         = JNum (Fin (real_of_int (now + e * 1000)))"
proof -
  let ?t = "now + c"
  have m: "Day ?t * msPerDay + (HourFromTime ?t * msPerHour + MinFromTime ?t * msPerMinute
             + to_integer (real_of_int (SecFromTime ?t) + real_of_int e) * msPerSecond
             + msFromTime ?t) = ?t + e * 1000"
    using time_fields_sum[of ?t]
    by (simp add: to_integer_of_int msPerSecond_def algebra_simps)
  show ?thesis
    unfolding calculateExpirationTimestamp_def Let_def
    using r
    by (simp add: getSeconds_def setSeconds_def js_add_def LocalTime_def z m UTC_def
        TimeClip_def getTime_def Let_def)
qed

text \<open>
  Claim C8 asks for the capture time plus \<open>expiresIn\<close> seconds. \<open>setSeconds\<close> works
  on the fields of local time, so the result is shifted by the change of the UTC offset
  when one lies between the two instants. In Amsterdam, a token captured at 02:30 local
  summer time on 27 October 2024 (00:30:00 UTC) with \<open>expiresIn = 3599\<close> gets the local
  time 03:29:59, which is winter time: 02:29:59 UTC, one hour after the token has expired.
\<close>

theorem expiry_across_dst_change:
  "calculateExpirationTimestamp amsterdam_runtime 1729989000000
     \<lparr> accessToken = JStr ''ya29'', expiresIn = JNum (Fin 3599), tokenType = JStr ''Bearer'' \<rparr>
     = JNum (Fin 1729996199000)
   \<and> (1729996199000 :: int) = 1729989000000 + 3599 * 1000 + 3600000"
  unfolding calculateExpirationTimestamp_def Let_def
  by (simp add: getSeconds_def setSeconds_def js_add_def getTime_def LocalTime_def UTC_def
     amsterdam_runtime_def SecFromTime_def msPerSecond_def msFromTime_def Day_def msPerDay_def
     HourFromTime_def msPerHour_def MinFromTime_def msPerMinute_def to_integer_def TimeClip_def)

section \<open>Properties of the song scraper\<close>

text \<open>
  Claim C2 asks for an empty list when the order-of-service table is absent. The branch
  ends in a bare \<open>return;\<close>, so the result is undefined, and the click handler, which
  reads \<open>songs.length\<close>, throws a TypeError.
\<close>

theorem missing_table_returns_undefined:
  "document_querySelector is_orderOfServiceTable page_without_table = None
   \<and> getSongTitles page_without_table = None
   \<and> onStreamButtonClick page_without_table
       = Inl (ErrorObj ''TypeError'' ''Cannot read properties of undefined (reading 'length')'')"
  by (simp add: getSongTitles_def onStreamButtonClick_def document_querySelector_def
      page_without_table_def is_orderOfServiceTable_def)

lemma getSongTitles_page_with_table: "getSongTitles page_with_table = Some [''Amazing Grace'']"
  by (simp add: getSongTitles_def document_querySelector_def querySelectorAll_def
      page_with_table_def is_orderOfServiceTable_def has_tag_def getSongTitleFromParagraph_def
      closest_def querySelector_def Let_def upt_rec numeral_eq_Suc)

text \<open>
  The second half of claim C2 holds: a paragraph whose nearest \<open>div\<close> has no \<open>span\<close>
  below it gets the title null and adds nothing to the list.
\<close>

lemma collectTitles_eq:
  "collectTitles doc ps acc =
     acc @ concat (map (\<lambda>pr. case getSongTitleFromParagraph doc pr of
                               None \<Rightarrow> []
                             | Some ttl \<Rightarrow> if ttl \<noteq> [] then [ttl] else []) ps)"
  by (induction ps arbitrary: acc) (auto split: option.splits)

lemma paragraph_without_marker:
  assumes "closest (has_tag ''div'') doc (fst pr) = Some d"
      and "querySelector (has_tag ''span'') d = None"
  shows "getSongTitleFromParagraph doc pr = None"
  using assms by (simp add: getSongTitleFromParagraph_def)

lemma paragraph_without_marker_excluded:
  assumes "closest (has_tag ''div'') doc (fst pr) = Some d"
      and "querySelector (has_tag ''span'') d = None"
  shows "collectTitles doc (ps @ pr # qs) acc = collectTitles doc (ps @ qs) acc"
  using paragraph_without_marker[OF assms] by (simp add: collectTitles_eq)

end
